theory Spec2Isabelle
  imports Main "HOL-Library.Sublist"
begin

section \<open>Text and bytes\<close>

text \<open>
  Both servers are Python programs. A Python \<open>bytes\<close> value is a list of 8-bit
  characters. A Python \<open>str\<close> is represented by its UTF-8 encoding, again a list of
  8-bit characters: concatenation, equality, \<open>startswith\<close> and splitting on ASCII
  separators are the same on code points and on well-formed UTF-8, and
  \<open>s.encode("utf-8")\<close> is the identity. The header blocks the multithreaded
  server builds hold a status line, the HTTP date and the MIME type the table gives
  for an absolute path; they are ASCII, where \<open>encode("iso-8859-1")\<close> is the
  identity as well, and so is the single-threaded server's 404 header. The
  single-threaded server's 200 header holds the type guessed for a relative path,
  which the table reads off the path itself when it has the form of a \<open>data:\<close> URL,
  so that header is encoded as the code encodes it.
\<close>

abbreviation CR :: char where "CR \<equiv> CHR 0x0D"
abbreviation LF :: char where "LF \<equiv> CHR 0x0A"
definition CRLF :: string where "CRLF = [CR, LF]"

text \<open>\<open>sep.join(xs)\<close>\<close>

fun join :: "string \<Rightarrow> string list \<Rightarrow> string" where
  "join sep [] = []"
| "join sep [x] = x"
| "join sep (x # y # ys) = x @ sep @ join sep (y # ys)"

text \<open>\<open>s.split(sep)\<close> for a one-character separator: never the empty list.\<close>

fun split_on :: "char \<Rightarrow> string \<Rightarrow> string list" where
  "split_on sep [] = [[]]"
| "split_on sep (c # cs) =
     (if c = sep then [] # split_on sep cs
      else (case split_on sep cs of
              [] \<Rightarrow> [[c]]
            | x # xs \<Rightarrow> (c # x) # xs))"

text \<open>\<open>str(n)\<close> of a non-negative integer, as an f-string renders it.\<close>

definition digit :: "nat \<Rightarrow> char" where
  "digit d = char_of (48 + d)"

function str_nat :: "nat \<Rightarrow> string" where
  "str_nat n = (if n < 10 then [digit n] else str_nat (n div 10) @ [digit (n mod 10)])"
  by pat_completeness auto
termination
  by (relation "measure id") auto

declare str_nat.simps [simp del]

subsection \<open>Exceptions\<close>

text \<open>
  The exceptions the handlers meet, all of them subclasses of \<open>Exception\<close>.
  \<open>IOError\<close> is \<open>OSError\<close> with its subclasses (a missing file, a refused
  permission, a broken connection); \<open>UnicodeDecodeError\<close> and
  \<open>UnicodeEncodeError\<close> are \<open>ValueError\<close>s, not \<open>IOError\<close>s.
\<close>

datatype exn = IOError | ValueError | UnicodeDecodeError | UnicodeEncodeError

subsection \<open>UTF-8\<close>

definition byte :: "char \<Rightarrow> nat" where
  "byte c = of_char c"

definition cont :: "char \<Rightarrow> bool" where
  "cont c = (0x80 \<le> byte c \<and> byte c \<le> 0xBF)"

text \<open>The second byte of a three- or four-byte sequence, by its lead byte.\<close>

definition second_ok :: "nat \<Rightarrow> char \<Rightarrow> bool" where
  "second_ok lead c =
     (if lead = 0xE0 then 0xA0 \<le> byte c \<and> byte c \<le> 0xBF
      else if lead = 0xED then 0x80 \<le> byte c \<and> byte c \<le> 0x9F
      else if lead = 0xF0 then 0x90 \<le> byte c \<and> byte c \<le> 0xBF
      else if lead = 0xF4 then 0x80 \<le> byte c \<and> byte c \<le> 0x8F
      else cont c)"

text \<open>
  One step of CPython's UTF-8 decoder at the byte \<open>b\<close> followed by \<open>rest\<close>: how many
  bytes it consumes and whether they are a well-formed sequence. An ill-formed step
  covers the bytes the decoder reports as one error (an invalid start byte, the
  bytes before an invalid continuation byte, or a sequence cut off by the end).
\<close>

definition utf8_step :: "char \<Rightarrow> string \<Rightarrow> nat \<times> bool" where
  "utf8_step b rest =
     (let n = byte b in
      if n < 0x80 then (1, True)
      else if 0xC2 \<le> n \<and> n \<le> 0xDF then
        (case rest of
           [] \<Rightarrow> (1, False)
         | b1 # _ \<Rightarrow> if cont b1 then (2, True) else (1, False))
      else if 0xE0 \<le> n \<and> n \<le> 0xEF then
        (case rest of
           [] \<Rightarrow> (1, False)
         | b1 # r1 \<Rightarrow>
             if \<not> second_ok n b1 then (1, False)
             else (case r1 of
                     [] \<Rightarrow> (2, False)
                   | b2 # _ \<Rightarrow> if cont b2 then (3, True) else (2, False)))
      else if 0xF0 \<le> n \<and> n \<le> 0xF4 then
        (case rest of
           [] \<Rightarrow> (1, False)
         | b1 # r1 \<Rightarrow>
             if \<not> second_ok n b1 then (1, False)
             else (case r1 of
                     [] \<Rightarrow> (2, False)
                   | b2 # r2 \<Rightarrow>
                       if \<not> cont b2 then (2, False)
                       else (case r2 of
                               [] \<Rightarrow> (3, False)
                             | b3 # _ \<Rightarrow> if cont b3 then (4, True) else (3, False))))
      else (1, False))"

text \<open>The decoder's cut of a byte string into well-formed sequences and errors.\<close>

function utf8_chunks :: "string \<Rightarrow> (bool \<times> string) list" where
  "utf8_chunks [] = []"
| "utf8_chunks (b # bs) =
     (case utf8_step b bs of
        (n, ok) \<Rightarrow> (ok, b # take (n - 1) bs) # utf8_chunks (drop (n - 1) bs))"
  by pat_completeness auto
termination
  by (relation "measure length") auto

text \<open>\<open>bs.decode(errors="ignore")\<close>: ill-formed bytes are dropped.\<close>

definition decode_ignore :: "string \<Rightarrow> string" where
  "decode_ignore bs = concat (map snd (filter fst (utf8_chunks bs)))"

text \<open>\<open>bs.decode("utf-8", "replace")\<close>: each error becomes U+FFFD.\<close>

definition decode_replace :: "string \<Rightarrow> string" where
  "decode_replace bs =
     concat (map (\<lambda>(ok, c). if ok then c else [CHR 0xEF, CHR 0xBF, CHR 0xBD]) (utf8_chunks bs))"

text \<open>\<open>bs.decode("utf-8")\<close>: an error raises \<open>UnicodeDecodeError\<close>.\<close>

definition decode_strict :: "string \<Rightarrow> exn + string" where
  "decode_strict bs = (if list_all fst (utf8_chunks bs) then Inr bs else Inl UnicodeDecodeError)"

text \<open>A character put in front of a result, an exception passed on.\<close>

definition prepend :: "char \<Rightarrow> exn + string \<Rightarrow> exn + string" where
  "prepend c r = (case r of Inl e \<Rightarrow> Inl e | Inr cs \<Rightarrow> Inr (c # cs))"

text \<open>
  \<open>s.encode("iso-8859-1")\<close>: an ASCII character is its own byte, U+0080 to U+00BF
  (C2 and a continuation byte) is the continuation byte, U+00C0 to U+00FF (C3 and a
  continuation byte) is that byte plus 0x40, and any other character raises
  \<open>UnicodeEncodeError\<close>.
\<close>

fun encode_latin1 :: "string \<Rightarrow> exn + string" where
  "encode_latin1 [] = Inr []"
| "encode_latin1 (b # bs) =
     (if byte b < 0x80 then prepend b (encode_latin1 bs)
      else (case bs of
              [] \<Rightarrow> Inl UnicodeEncodeError
            | b1 # rest \<Rightarrow>
                if (byte b = 0xC2 \<or> byte b = 0xC3) \<and> cont b1
                then prepend (char_of (byte b1 + (if byte b = 0xC3 then 0x40 else 0)))
                       (encode_latin1 rest)
                else Inl UnicodeEncodeError))"

subsection \<open>Lines and tokens\<close>

text \<open>\<open>s.split("\r\n")\<close>: never the empty list.\<close>

fun split_crlf :: "string \<Rightarrow> string list" where
  "split_crlf [] = [[]]"
| "split_crlf [c] = [[c]]"
| "split_crlf (a # b # cs) =
     (if a = CR \<and> b = LF then [] # split_crlf cs
      else (case split_crlf (b # cs) of
              [] \<Rightarrow> [[a]]
            | x # xs \<Rightarrow> (a # x) # xs))"

text \<open>
  Whether a line boundary of \<open>str.splitlines\<close> starts the string: LF, CR, VT, FF,
  FS, GS, RS, and U+0085, U+2028, U+2029 in their UTF-8 form.
\<close>

definition linebreak_at :: "string \<Rightarrow> bool" where
  "linebreak_at s =
     (case map byte (take 3 s) of
        [] \<Rightarrow> False
      | a # r \<Rightarrow>
          (10 \<le> a \<and> a \<le> 13) \<or> (28 \<le> a \<and> a \<le> 30)
          \<or> (case r of
                [] \<Rightarrow> False
              | b # r' \<Rightarrow>
                  (a = 0xC2 \<and> b = 0x85)
                  \<or> (case r' of
                        [] \<Rightarrow> False
                      | c # _ \<Rightarrow> a = 0xE2 \<and> b = 0x80 \<and> (c = 0xA8 \<or> c = 0xA9))))"

text \<open>\<open>(s.splitlines() or [""])[0]\<close>: the text before the first line boundary.\<close>

fun first_splitline :: "string \<Rightarrow> string" where
  "first_splitline [] = []"
| "first_splitline (c # cs) = (if linebreak_at (c # cs) then [] else c # first_splitline cs)"

text \<open>
  The length in bytes of the whitespace character that starts the string, 0 when
  none does. Whitespace is what \<open>str.split()\<close> splits on: U+0009 to U+000D, U+001C
  to U+0020, U+0085, U+00A0, U+1680, U+2000 to U+200A, U+2028, U+2029, U+202F,
  U+205F and U+3000.
\<close>

definition ws_len :: "string \<Rightarrow> nat" where
  "ws_len s =
     (case map byte (take 3 s) of
        [] \<Rightarrow> 0
      | a # r \<Rightarrow>
          if (9 \<le> a \<and> a \<le> 13) \<or> (28 \<le> a \<and> a \<le> 32) then 1
          else (case r of
                  [] \<Rightarrow> 0
                | b # r' \<Rightarrow>
                    if a = 0xC2 \<and> (b = 0x85 \<or> b = 0xA0) then 2
                    else (case r' of
                            [] \<Rightarrow> 0
                          | c # _ \<Rightarrow>
                              if (a = 0xE1 \<and> b = 0x9A \<and> c = 0x80)
                                 \<or> (a = 0xE2 \<and> b = 0x80
                                      \<and> ((0x80 \<le> c \<and> c \<le> 0x8A) \<or> c = 0xA8 \<or> c = 0xA9 \<or> c = 0xAF))
                                 \<or> (a = 0xE2 \<and> b = 0x81 \<and> c = 0x9F)
                                 \<or> (a = 0xE3 \<and> b = 0x80 \<and> c = 0x80)
                              then 3 else 0)))"

definition flush :: "string \<Rightarrow> string list" where
  "flush cur = (if cur = [] then [] else [cur])"

text \<open>\<open>s.split()\<close>: the maximal runs of non-whitespace, \<open>cur\<close> the token being read.\<close>

function split_ws :: "string \<Rightarrow> string \<Rightarrow> string list" where
  "split_ws cur [] = flush cur"
| "split_ws cur (c # cs) =
     (if ws_len (c # cs) = 0 then split_ws (cur @ [c]) cs
      else flush cur @ split_ws [] (drop (ws_len (c # cs) - 1) cs))"
  by pat_completeness auto
termination
  by (relation "measure (\<lambda>(cur, s). length s)") auto

text \<open>
  What reading a file in text mode does to line ends (\<open>newline=None\<close>): CR LF and a
  lone CR both become LF.
\<close>

fun universal_newlines :: "string \<Rightarrow> string" where
  "universal_newlines [] = []"
| "universal_newlines [c] = (if c = CR then [LF] else [c])"
| "universal_newlines (a # b # cs) =
     (if a = CR \<and> b = LF then LF # universal_newlines cs
      else if a = CR then LF # universal_newlines (b # cs)
      else a # universal_newlines (b # cs))"

text \<open>The number of CR LF pairs in a byte string.\<close>

fun count_crlf :: "string \<Rightarrow> nat" where
  "count_crlf [] = 0"
| "count_crlf [c] = 0"
| "count_crlf (a # b # cs) =
     (if a = CR \<and> b = LF then Suc (count_crlf cs) else count_crlf (b # cs))"

subsection \<open>\<open>urllib.parse.unquote\<close>\<close>

definition hexval :: "char \<Rightarrow> nat option" where
  "hexval c =
     (let n = byte c in
      if 48 \<le> n \<and> n \<le> 57 then Some (n - 48)
      else if 65 \<le> n \<and> n \<le> 70 then Some (n - 55)
      else if 97 \<le> n \<and> n \<le> 102 then Some (n - 87)
      else None)"

text \<open>
  One item of \<open>string.split("%")\<close> after the first: two hex digits become a byte,
  anything else keeps its percent sign.
\<close>

fun unquote_item :: "string \<Rightarrow> string" where
  "unquote_item (a # b # rest) =
     (case (hexval a, hexval b) of
        (Some x, Some y) \<Rightarrow> char_of (16 * x + y) # rest
      | _ \<Rightarrow> CHR ''%'' # a # b # rest)"
| "unquote_item item = CHR ''%'' # item"

definition unquote_to_bytes :: "string \<Rightarrow> string" where
  "unquote_to_bytes s =
     (case split_on CHR ''%'' s of
        [] \<Rightarrow> []
      | first # bits \<Rightarrow> first @ concat (map unquote_item bits))"

text \<open>
  The maximal runs of ASCII and of non-ASCII characters (the matches of
  \<open>[\x00-\x7f]+\<close> and what lies between them).
\<close>

fun ascii_runs :: "string \<Rightarrow> (bool \<times> string) list" where
  "ascii_runs [] = []"
| "ascii_runs (c # cs) =
     (case ascii_runs cs of
        [] \<Rightarrow> [(byte c < 0x80, [c])]
      | (a, r) # rest \<Rightarrow>
          if a = (byte c < 0x80) then (a, c # r) # rest
          else (byte c < 0x80, [c]) # (a, r) # rest)"

definition unquote :: "string \<Rightarrow> string" where
  "unquote s =
     (if CHR ''%'' \<notin> set s then s
      else concat (map (\<lambda>(a, r). if a then decode_replace (unquote_to_bytes r) else r)
                       (ascii_runs s)))"

subsection \<open>\<open>os.path\<close> (POSIX)\<close>

definition path_join :: "string \<Rightarrow> string \<Rightarrow> string" where
  "path_join a b =
     (if prefix ''/'' b then b
      else if a = [] \<or> suffix ''/'' a then a @ b
      else a @ ''/'' @ b)"

text \<open>The loop of \<open>normpath\<close> over the components, \<open>new_comps\<close> as accumulator.\<close>

fun norm_comps :: "nat \<Rightarrow> string list \<Rightarrow> string list \<Rightarrow> string list" where
  "norm_comps initial_slashes new_comps [] = new_comps"
| "norm_comps initial_slashes new_comps (comp1 # comps) =
     (if comp1 = [] \<or> comp1 = ''.'' then norm_comps initial_slashes new_comps comps
      else if comp1 \<noteq> ''..'' \<or> (initial_slashes = 0 \<and> new_comps = [])
                \<or> (new_comps \<noteq> [] \<and> last new_comps = ''..'')
        then norm_comps initial_slashes (new_comps @ [comp1]) comps
      else if new_comps \<noteq> [] then norm_comps initial_slashes (butlast new_comps) comps
      else norm_comps initial_slashes new_comps comps)"

definition normpath :: "string \<Rightarrow> string" where
  "normpath path =
     (if path = [] then ''.''
      else
        let initial_slashes =
              (if prefix ''/'' path
               then (if prefix ''//'' path \<and> \<not> prefix ''///'' path then 2 else 1)
               else 0);
            comps = norm_comps initial_slashes [] (split_on CHR ''/'' path);
            joined = join ''/'' comps;
            path' = (if initial_slashes \<noteq> 0
                     then replicate initial_slashes CHR ''/'' @ joined else joined)
        in if path' = [] then ''.'' else path')"

section \<open>The multithreaded server: path resolution\<close>

text \<open>
  \<open>raw\<close> of \<open>safe_path\<close>: the query component is cut off, the rest is percent-decoded,
  \<open>lstrip("/")\<close> removes the leading slashes, and the empty string becomes the
  default page.
\<close>

definition request_raw :: "string \<Rightarrow> string" where
  "request_raw url_path =
     (let raw = dropWhile (\<lambda>c. c = CHR ''/'')
                  (unquote (takeWhile (\<lambda>c. c \<noteq> CHR ''?'') url_path))
      in if raw = [] then ''webservertesting.html'' else raw)"

text \<open>\<open>WEB_ROOT\<close> is the working directory at start-up, the parameter \<open>root\<close> here.\<close>

definition safe_path :: "string \<Rightarrow> string \<Rightarrow> string option" where
  "safe_path root url_path =
     (let safe = normpath (path_join root (request_raw url_path))
      in if \<not> prefix root safe then None else Some safe)"

text \<open>
  What the spec means by a target inside the root: the root itself or a path below
  it, component-wise.
\<close>

definition inside_root :: "string \<Rightarrow> string \<Rightarrow> bool" where
  "inside_root root p = (p = root \<or> prefix (if suffix ''/'' root then root else root @ ''/'') p)"

section \<open>The connection and the environment\<close>

text \<open>
  What a handler reads from outside the program: the start-up directory, the clock,
  the file system and the MIME table. \<open>read_file p\<close> is what opening \<open>p\<close> and reading
  it to the end gives, the bytes or the exception raised.
\<close>

record env =
  web_root :: string
  http_date :: string
  isfile :: "string \<Rightarrow> bool"
  read_file :: "string \<Rightarrow> exn + string"
  guess_type :: "string \<Rightarrow> string option"

text \<open>
  The client socket: the byte strings \<open>sendall\<close> has transmitted, how many more
  \<open>sendall\<close> calls the connection will take before it breaks, and whether the socket
  is closed. A \<open>sendall\<close> on a broken connection raises and adds nothing to what was
  transmitted.
\<close>

record sock =
  sent :: "string list"
  budget :: nat
  closed :: bool

text \<open>A statement either completes (\<open>None\<close>) or raises (\<open>Some e\<close>).\<close>

definition sendall :: "sock \<Rightarrow> string \<Rightarrow> sock \<times> exn option" where
  "sendall s data =
     (if budget s = 0 then (s, Some IOError)
      else (s\<lparr>sent := sent s @ [data], budget := budget s - 1\<rparr>, None))"

text \<open>Two statements in sequence: the second runs only if the first did not raise.\<close>

definition and_then ::
  "sock \<times> exn option \<Rightarrow> (sock \<Rightarrow> sock \<times> exn option) \<Rightarrow> sock \<times> exn option" where
  "and_then r f = (case r of (s1, None) \<Rightarrow> f s1 | (s1, Some e) \<Rightarrow> (s1, Some e))"

definition close :: "sock \<Rightarrow> sock" where
  "close s = s\<lparr>closed := True\<rparr>"

section \<open>The multithreaded server: the handler\<close>

definition send_error ::
  "string \<Rightarrow> sock \<Rightarrow> nat \<Rightarrow> string \<Rightarrow> string list \<Rightarrow> string option \<Rightarrow> sock \<times> exn option" where
  "send_error date s code reason headers body_opt =
     (let body = (case body_opt of
                    None \<Rightarrow> ''<html><body><h1>'' @ str_nat code @ '' '' @ reason
                              @ ''</h1></body></html>''
                  | Some b \<Rightarrow> b);
          base_headers =
            [''Date: '' @ date,
             ''Server: CS538Toy/1.0'',
             ''Content-Type: text/html; charset=utf-8'',
             ''Content-Length: '' @ str_nat (length body),
             ''Connection: close''] @ headers;
          header_block = ''HTTP/1.1 '' @ str_nat code @ '' '' @ reason @ CRLF
                           @ join CRLF base_headers @ CRLF @ CRLF
      in and_then (sendall s header_block) (\<lambda>s1. sendall s1 body))"

text \<open>
  The \<open>try\<close> block of \<open>handle_client\<close>. \<open>rx\<close> is what \<open>recv(4096)\<close> gives: the bytes
  received or the exception raised. The \<open>print\<close> calls and the search for the
  User-Agent line only log, and are left out.
\<close>

definition handle_request :: "env \<Rightarrow> sock \<Rightarrow> exn + string \<Rightarrow> sock \<times> exn option" where
  "handle_request env s rx =
     (case rx of
        Inl e \<Rightarrow> (s, Some e)
      | Inr received \<Rightarrow>
          let request_data = decode_ignore received in
          if request_data = [] then (s, None)
          else
            let lines = split_crlf request_data;
                request_line = hd lines;
                parts = split_ws [] request_line
            in
            if length parts \<noteq> 3 then send_error (http_date env) s 400 ''Bad Request'' [] None
            else
              let method = parts ! 0; path = parts ! 1 in
              if method \<noteq> ''GET''
              then send_error (http_date env) s 405 ''Method Not Allowed'' [''Allow: GET''] None
              else
                (case safe_path (web_root env) path of
                   None \<Rightarrow> send_error (http_date env) s 404 ''Not Found'' [] None
                 | Some filepath \<Rightarrow>
                     if filepath = [] \<or> \<not> isfile env filepath
                     then send_error (http_date env) s 404 ''Not Found'' [] None
                     else
                       let guessed = (case guess_type env filepath of
                                        None \<Rightarrow> ''application/octet-stream''
                                      | Some t \<Rightarrow> if t = [] then ''application/octet-stream'' else t);
                           content_type = (if prefix ''text/'' guessed
                                           then guessed @ ''; charset=utf-8'' else guessed)
                       in
                       (case read_file env filepath of
                          Inl e \<Rightarrow> (s, Some e)
                        | Inr content \<Rightarrow>
                            let headers =
                                  [''Date: '' @ http_date env,
                                   ''Server: CS538Toy/1.0'',
                                   ''Content-Type: '' @ content_type,
                                   ''Content-Length: '' @ str_nat (length content),
                                   ''Connection: close''];
                                header_block = ''HTTP/1.1 200 OK'' @ CRLF
                                                 @ join CRLF headers @ CRLF @ CRLF
                            in and_then (sendall s header_block) (\<lambda>s1. sendall s1 content))))"

text \<open>
  \<open>handle_client\<close>: the \<open>try\<close> block, \<open>except Exception\<close> (a 500 page whose own
  failure is swallowed by the bare \<open>except\<close>), and \<open>finally\<close> the close. The second
  component is the exception that leaves the function, if any.
\<close>

definition handle_client :: "env \<Rightarrow> sock \<Rightarrow> exn + string \<Rightarrow> sock \<times> exn option" where
  "handle_client env s rx =
     (case handle_request env s rx of
        (s1, None) \<Rightarrow> (close s1, None)
      | (s1, Some e) \<Rightarrow>
          (case send_error (http_date env) s1 500 ''Internal Server Error'' [] None of
             (s2, _) \<Rightarrow> (close s2, None)))"

section \<open>The single-threaded server\<close>

text \<open>
  The inner \<open>try\<close>: three tokens are unpacked, a method other than GET raises
  \<open>IOError\<close>; any other token count raises \<open>ValueError\<close>, which is caught and
  replaced by the request \<open>GET / HTTP/1.1\<close>.
\<close>

definition parse_request_line :: "string \<Rightarrow> exn + string \<times> string \<times> string" where
  "parse_request_line first_line =
     (case split_ws [] first_line of
        [method, path, version] \<Rightarrow>
          if method \<noteq> ''GET'' then Inl IOError else Inr (method, path, version)
      | _ \<Rightarrow> Inr (''GET'', ''/'', ''HTTP/1.1''))"

text \<open>\<open>filepath\<close>: the default page for \<open>/\<close>, then \<open>path.lstrip("/").split("?")[0]\<close>.\<close>

definition request_filepath :: "string \<Rightarrow> string" where
  "request_filepath path0 =
     (let path = (if path0 = ''/'' then ''/webservertesting.html'' else path0)
      in takeWhile (\<lambda>c. c \<noteq> CHR ''?'') (dropWhile (\<lambda>c. c = CHR ''/'') path))"

text \<open>
  Reading a file opened with \<open>open(filepath, "r", encoding="utf-8")\<close> and encoding the
  text again.
\<close>

definition read_text :: "env \<Rightarrow> string \<Rightarrow> exn + string" where
  "read_text env filepath =
     (case read_file env filepath of
        Inl e \<Rightarrow> Inl e
      | Inr bs \<Rightarrow>
          (case decode_strict bs of
             Inl e \<Rightarrow> Inl e
           | Inr text \<Rightarrow> Inr (universal_newlines text)))"

text \<open>
  The outer \<open>try\<close> block of one turn of the accept loop. The header is encoded before
  the first write, so a header that does not encode raises with nothing sent.
\<close>

definition serve_request :: "env \<Rightarrow> sock \<Rightarrow> exn + string \<Rightarrow> sock \<times> exn option" where
  "serve_request env s rx =
     (case rx of
        Inl e \<Rightarrow> (s, Some e)
      | Inr received \<Rightarrow>
          let request_data = decode_ignore received in
          if request_data = [] then (s, None)
          else
            let first_line = first_splitline request_data in
            (case parse_request_line first_line of
               Inl e \<Rightarrow> (s, Some e)
             | Inr (method, path, version) \<Rightarrow>
                 let filepath = request_filepath path;
                     guessed = (case guess_type env filepath of
                                  None \<Rightarrow> ''application/octet-stream''
                                | Some t \<Rightarrow> t);
                     content_type = (if prefix ''text/'' guessed
                                     then guessed @ ''; charset=utf-8'' else guessed)
                 in
                 (case (if prefix ''text/'' content_type
                        then read_text env filepath else read_file env filepath) of
                    Inl e \<Rightarrow> (s, Some e)
                  | Inr file_content \<Rightarrow>
                      let response_header =
                            ''HTTP/1.1 200 OK'' @ CRLF
                            @ ''Content-Type: '' @ content_type @ CRLF
                            @ ''Content-Length: '' @ str_nat (length file_content) @ CRLF
                            @ ''Connection: close'' @ CRLF @ CRLF
                      in (case encode_latin1 response_header of
                            Inl e \<Rightarrow> (s, Some e)
                          | Inr header_bytes \<Rightarrow>
                              and_then (sendall s header_bytes)
                                (\<lambda>s1. sendall s1 file_content)))))"

definition error_body :: string where
  "error_body = ''<html><body><h1>404 Not Found</h1><p>The requested file was not found on the server.</p></body></html>''"

text \<open>The \<open>except IOError\<close> clause.\<close>

definition send_not_found :: "sock \<Rightarrow> sock \<times> exn option" where
  "send_not_found s =
     (let error_header =
            ''HTTP/1.1 404 Not Found'' @ CRLF
            @ ''Content-Type: text/html; charset=utf-8'' @ CRLF
            @ ''Content-Length: '' @ str_nat (length error_body) @ CRLF
            @ ''Connection: close'' @ CRLF @ CRLF
      in and_then (sendall s error_header) (\<lambda>s1. sendall s1 error_body))"

text \<open>
  One turn of the accept loop: the \<open>try\<close> block, \<open>except IOError\<close>, and \<open>finally\<close> the
  close. An exception in the second component leaves the loop, which is the module's
  top level: the server process ends.
\<close>

definition serve_connection :: "env \<Rightarrow> sock \<Rightarrow> exn + string \<Rightarrow> sock \<times> exn option" where
  "serve_connection env s rx =
     (case serve_request env s rx of
        (s1, None) \<Rightarrow> (close s1, None)
      | (s1, Some e) \<Rightarrow>
          if e = IOError
          then (case send_not_found s1 of (s2, r) \<Rightarrow> (close s2, r))
          else (close s1, Some e))"

section \<open>Reading a response off the wire\<close>

text \<open>
  The value of the first header line with the given name, among the lines of a header
  block.
\<close>

fun header_value :: "string \<Rightarrow> string list \<Rightarrow> string option" where
  "header_value name [] = None"
| "header_value name (l # ls) =
     (if prefix (name @ '': '') l then Some (drop (length name + 2) l)
      else header_value name ls)"

text \<open>
  What a client reads from a connection on which one response was written, the header
  block by one \<open>sendall\<close> and the body by the next: the status line and the header
  lines are the lines of the header block, split at CR LF.
\<close>

definition response_status :: "string list \<Rightarrow> string" where
  "response_status out =
     (case out of [] \<Rightarrow> [] | hb # _ \<Rightarrow> (case split_crlf hb of [] \<Rightarrow> [] | l # _ \<Rightarrow> l))"

definition response_header :: "string \<Rightarrow> string list \<Rightarrow> string option" where
  "response_header name out =
     (case out of [] \<Rightarrow> None | hb # _ \<Rightarrow> header_value name (tl (split_crlf hb)))"

definition response_body :: "string list \<Rightarrow> string" where
  "response_body out = (case out of [_, b] \<Rightarrow> b | _ \<Rightarrow> [])"

text \<open>Content-Length announces the length of the body sent.\<close>

definition content_length_matches :: "string list \<Rightarrow> bool" where
  "content_length_matches out =
     (response_header ''Content-Length'' out = Some (str_nat (length (response_body out))))"

text \<open>The three headers the spec asks of every response.\<close>

definition has_mandatory_headers :: "string list \<Rightarrow> bool" where
  "has_mandatory_headers out =
     (response_header ''Content-Type'' out \<noteq> None \<and>
      response_header ''Content-Length'' out \<noteq> None \<and>
      response_header ''Connection'' out = Some ''close'')"

text \<open>
  The spec's error response: an HTML page whose heading is the code and reason of the
  status line, which follow the nine characters of \<open>HTTP/1.1\<close> and a space.
\<close>

definition error_page_form :: "string list \<Rightarrow> bool" where
  "error_page_form out =
     (response_header ''Content-Type'' out = Some ''text/html; charset=utf-8'' \<and>
      response_body out = ''<html><body><h1>'' @ drop 9 (response_status out) @ ''</h1></body></html>'')"

text \<open>
  A response is a 200 with the given body, a Content-Length of that body's length and
  the given content type.
\<close>

definition serves :: "string list \<Rightarrow> string \<Rightarrow> string \<Rightarrow> bool" where
  "serves out content_type body =
     (response_status out = ''HTTP/1.1 200 OK'' \<and>
      response_body out = body \<and>
      response_header ''Content-Length'' out = Some (str_nat (length body)) \<and>
      response_header ''Content-Type'' out = Some content_type)"

section \<open>Parts of the handlers, named\<close>

text \<open>
  The pieces of the two handlers that the proofs speak about: the tokens of the request
  line, the content type chosen for a guess of the MIME table, what is read for a file,
  and the two byte strings written for each kind of response.
\<close>

definition request_parts :: "string \<Rightarrow> string list" where
  "request_parts received = split_ws [] (hd (split_crlf (decode_ignore received)))"

definition request_first_line :: "string \<Rightarrow> string" where
  "request_first_line received = first_splitline (decode_ignore received)"

definition mt_content_type :: "string option \<Rightarrow> string" where
  "mt_content_type guess =
     (let guessed = (case guess of
                       None \<Rightarrow> ''application/octet-stream''
                     | Some t \<Rightarrow> if t = [] then ''application/octet-stream'' else t)
      in if prefix ''text/'' guessed then guessed @ ''; charset=utf-8'' else guessed)"

definition st_content_type :: "string option \<Rightarrow> string" where
  "st_content_type guess =
     (let guessed = (case guess of
                       None \<Rightarrow> ''application/octet-stream''
                     | Some t \<Rightarrow> t)
      in if prefix ''text/'' guessed then guessed @ ''; charset=utf-8'' else guessed)"

definition st_read :: "env \<Rightarrow> string \<Rightarrow> string \<Rightarrow> exn + string" where
  "st_read env content_type filepath =
     (if prefix ''text/'' content_type then read_text env filepath else read_file env filepath)"

definition header_block :: "string \<Rightarrow> string list \<Rightarrow> string" where
  "header_block st hs = st @ CRLF @ join CRLF hs @ CRLF @ CRLF"

text \<open>The single-threaded server's 200 header, before it is encoded.\<close>

definition st_header :: "string \<Rightarrow> nat \<Rightarrow> string" where
  "st_header content_type n =
     ''HTTP/1.1 200 OK'' @ CRLF
     @ ''Content-Type: '' @ content_type @ CRLF
     @ ''Content-Length: '' @ str_nat n @ CRLF
     @ ''Connection: close'' @ CRLF @ CRLF"

definition error_body_of :: "nat \<Rightarrow> string \<Rightarrow> string" where
  "error_body_of code reason = ''<html><body><h1>'' @ str_nat code @ '' '' @ reason @ ''</h1></body></html>''"

definition error_page :: "string \<Rightarrow> nat \<Rightarrow> string \<Rightarrow> string list \<Rightarrow> string list" where
  "error_page date code reason headers =
     [header_block (''HTTP/1.1 '' @ str_nat code @ '' '' @ reason)
        ([''Date: '' @ date,
          ''Server: CS538Toy/1.0'',
          ''Content-Type: text/html; charset=utf-8'',
          ''Content-Length: '' @ str_nat (length (error_body_of code reason)),
          ''Connection: close''] @ headers),
      error_body_of code reason]"

definition ok_page :: "string \<Rightarrow> string \<Rightarrow> string \<Rightarrow> string list" where
  "ok_page date content_type content =
     [header_block ''HTTP/1.1 200 OK''
        [''Date: '' @ date,
         ''Server: CS538Toy/1.0'',
         ''Content-Type: '' @ content_type,
         ''Content-Length: '' @ str_nat (length content),
         ''Connection: close''],
      content]"

definition st_ok_page :: "string \<Rightarrow> string \<Rightarrow> string list" where
  "st_ok_page content_type file_content =
     [header_block ''HTTP/1.1 200 OK''
        [''Content-Type: '' @ content_type,
         ''Content-Length: '' @ str_nat (length file_content),
         ''Connection: close''],
      file_content]"

definition not_found_page :: "string list" where
  "not_found_page =
     [header_block ''HTTP/1.1 404 Not Found''
        [''Content-Type: text/html; charset=utf-8'',
         ''Content-Length: '' @ str_nat (length error_body),
         ''Connection: close''],
      error_body]"

section \<open>The spec's reading of path resolution\<close>

text \<open>
  Steps 1 to 3 of the spec's path resolver, in its words: strip the query component,
  percent-decode, strip a single leading path separator, and substitute the default
  document name if the result is empty.
\<close>

definition strip_one_separator :: "string \<Rightarrow> string" where
  "strip_one_separator p = (case p of [] \<Rightarrow> [] | c # cs \<Rightarrow> if c = CHR ''/'' then cs else p)"

definition request_raw_spec :: "string \<Rightarrow> string" where
  "request_raw_spec url_path =
     (let stripped = strip_one_separator (unquote (takeWhile (\<lambda>c. c \<noteq> CHR ''?'') url_path))
      in if stripped = [] then ''webservertesting.html'' else stripped)"

section \<open>An example installation\<close>

text \<open>
  A server started in \<open>/srv/www\<close>, beside a directory \<open>/srv/www-private\<close>. The
  multithreaded server opens absolute paths, the single-threaded one paths relative
  to \<open>/srv/www\<close>. Each file has the bytes reading it gives, or the exception raised.
\<close>

definition example_files :: "(string \<times> (exn + string)) list" where
  "example_files =
     [(''/srv/www/webservertesting.html'', Inr ''<h1>It works</h1>''),
      (''/srv/www/notes.txt'', Inr (''a'' @ CRLF @ ''b'')),
      (''/srv/www/locked.html'', Inl IOError),
      (''/srv/www/archive.bin'', Inr [CHR 0x1F, CHR 0x8B, CR, LF, CHR 0xFF]),
      (''/srv/www-private/key.pem'', Inr ''secret''),
      (''webservertesting.html'', Inr ''<h1>It works</h1>''),
      (''notes.txt'', Inr (''a'' @ CRLF @ ''b'')),
      (''legacy.txt'', Inr [CHR ''c'', CHR ''a'', CHR ''f'', CHR 0xE9]),
      (''logo.png'', Inr [CHR 0x89, CHR ''P'', CHR ''N'', CHR ''G'', CR, LF]),
      (''archive.bin'', Inr [CHR 0x1F, CHR 0x8B, CR, LF, CHR 0xFF]),
      (''../www-private/key.pem'', Inr ''secret'')]"

definition example_types :: "string \<Rightarrow> string option" where
  "example_types p =
     (if suffix ''.html'' p then Some ''text/html''
      else if suffix ''.txt'' p then Some ''text/plain''
      else if suffix ''.png'' p then Some ''image/png''
      else None)"

definition example_env :: env where
  "example_env =
     \<lparr>web_root = ''/srv/www'',
      http_date = ''Tue, 03 Nov 2026 10:00:00 GMT'',
      isfile = (\<lambda>p. map_of example_files p \<noteq> None),
      read_file = (\<lambda>p. case map_of example_files p of
                           None \<Rightarrow> Inl IOError
                         | Some r \<Rightarrow> r),
      guess_type = example_types\<rparr>"

text \<open>A freshly accepted connection that takes both writes of a response.\<close>

definition fresh :: sock where
  "fresh = \<lparr>sent = [], budget = 2, closed = False\<rparr>"

text \<open>A request of one line, ended by a blank line, and the requests with a method and a path.\<close>

definition request_of_line :: "string \<Rightarrow> string" where
  "request_of_line line = line @ CRLF @ CRLF"

definition request_bytes :: "string \<Rightarrow> string \<Rightarrow> string" where
  "request_bytes method path = request_of_line (method @ '' '' @ path @ '' HTTP/1.1'')"

definition get_request :: "string \<Rightarrow> exn + string" where
  "get_request path = Inr (request_bytes ''GET'' path)"

section \<open>Facts about the string functions\<close>

lemma digit_not_CR: "d < 10 \<Longrightarrow> CR \<noteq> digit d"
proof
  assume d: "d < 10" and eq: "CR = digit d"
  have "(of_char (digit d) :: nat) = 48 + d"
    using d by (simp add: digit_def)
  moreover have "(of_char CR :: nat) = 13" by simp
  ultimately show False using eq by simp
qed

lemma str_nat_no_CR: "CR \<notin> set (str_nat n)"
proof (induction n rule: str_nat.induct)
  case (1 n)
  show ?case
  proof (cases "n < 10")
    case True
    then show ?thesis by (simp add: str_nat.simps [of n] digit_not_CR)
  next
    case False
    then show ?thesis using 1 by (simp add: str_nat.simps [of n] digit_not_CR)
  qed
qed

lemma split_crlf_single: "CR \<notin> set x \<Longrightarrow> split_crlf x = [x]"
  by (induction x rule: split_crlf.induct) auto

lemma split_crlf_line: "CR \<notin> set x \<Longrightarrow> split_crlf (x @ CRLF @ rest) = x # split_crlf rest"
  by (induction x rule: split_crlf.induct) (auto simp: CRLF_def)

lemma split_crlf_end: "split_crlf CRLF = [[], []]"
  by (simp add: CRLF_def)

lemma split_crlf_join:
  "hs \<noteq> [] \<Longrightarrow> \<forall>h \<in> set hs. CR \<notin> set h \<Longrightarrow>
     split_crlf (join CRLF hs @ CRLF @ rest) = hs @ split_crlf rest"
proof (induction CRLF hs rule: join.induct)
  case 1
  then show ?case by simp
next
  case (2 x)
  then show ?case by (simp add: split_crlf_line)
next
  case (3 x y ys)
  then show ?case by (simp add: split_crlf_line)
qed

text \<open>The lines of a header block whose status line and header lines hold no CR.\<close>

lemma header_block_lines:
  assumes "CR \<notin> set st" and "hs \<noteq> []" and "\<forall>h \<in> set hs. CR \<notin> set h"
  shows "split_crlf (st @ CRLF @ join CRLF hs @ CRLF @ CRLF) = st # hs @ [[], []]"
  using assms by (simp add: split_crlf_line split_crlf_join split_crlf_end)

lemma two_sends:
  "2 \<le> budget s \<Longrightarrow>
   and_then (sendall s a) (\<lambda>s1. sendall s1 b) =
     (s\<lparr>sent := sent s @ [a, b], budget := budget s - 2\<rparr>, None)"
  by (simp add: and_then_def sendall_def)

text \<open>Encoding to ISO 8859-1 passes ASCII through and goes through concatenation.\<close>

lemma encode_ascii_prefix:
  "list_all (\<lambda>c. byte c < 0x80) a \<Longrightarrow>
   encode_latin1 (a @ y) = (case encode_latin1 y of Inl e \<Rightarrow> Inl e | Inr y' \<Rightarrow> Inr (a @ y'))"
  by (induction a) (auto simp: prepend_def split: sum.splits)

lemma encode_ascii: "list_all (\<lambda>c. byte c < 0x80) a \<Longrightarrow> encode_latin1 a = Inr a"
  using encode_ascii_prefix [of a "[]"] by simp

lemma encode_append:
  "y = [] \<or> byte (hd y) < 0x80 \<Longrightarrow>
   encode_latin1 (x @ y) =
     (case encode_latin1 x of
        Inl e \<Rightarrow> Inl e
      | Inr x' \<Rightarrow> (case encode_latin1 y of Inl e \<Rightarrow> Inl e | Inr y' \<Rightarrow> Inr (x' @ y')))"
proof (induction x rule: encode_latin1.induct)
  case 1
  then show ?case by (simp split: sum.splits)
next
  case (2 b bs)
  show ?case
  proof (cases "byte b < 0x80")
    case True
    with 2 show ?thesis by (simp add: prepend_def split: sum.splits)
  next
    case hi: False
    show ?thesis
    proof (cases bs)
      case Nil
      with hi 2(3) show ?thesis
        by (cases y) (auto simp: cont_def)
    next
      case (Cons b1 rest)
      with hi 2 show ?thesis by (simp add: prepend_def split: sum.splits)
    qed
  qed
qed

lemma high_char_not_CR: "0x80 \<le> n \<Longrightarrow> n < 0x100 \<Longrightarrow> char_of (n::nat) \<noteq> CR"
proof
  assume n: "0x80 \<le> n" "n < 0x100" and eq: "char_of n = CR"
  have "(of_char (char_of n) :: nat) = n" using n by simp
  moreover have "(of_char CR :: nat) = 13" by simp
  ultimately show False using eq n by simp
qed

lemma encode_no_CR:
  "CR \<notin> set x \<Longrightarrow> encode_latin1 x = Inr x' \<Longrightarrow> CR \<notin> set x'"
proof (induction x arbitrary: x' rule: encode_latin1.induct)
  case 1
  then show ?case by simp
next
  case (2 b bs)
  show ?case
  proof (cases "byte b < 0x80")
    case True
    with 2 show ?thesis by (auto simp: prepend_def split: sum.splits)
  next
    case hi: False
    show ?thesis
    proof (cases bs)
      case Nil
      with hi 2 show ?thesis by simp
    next
      case (Cons b1 rest)
      let ?c = "char_of (byte b1 + (if byte b = 0xC3 then 0x40 else 0))"
      from 2(4) hi Cons have ok: "(byte b = 0xC2 \<or> byte b = 0xC3) \<and> cont b1"
        by (auto split: if_splits)
      with 2(4) hi Cons obtain x2 where x2: "encode_latin1 rest = Inr x2" and x': "x' = ?c # x2"
        by (auto simp: prepend_def split: sum.splits)
      from 2(3) Cons have "CR \<notin> set rest" by simp
      with 2(2) [OF hi Cons ok] x2 have "CR \<notin> set x2" by blast
      moreover have "?c \<noteq> CR"
        using ok by (intro high_char_not_CR) (auto simp: cont_def)
      ultimately show ?thesis using x' by auto
    qed
  qed
qed

lemma digit_ascii: "d < 10 \<Longrightarrow> byte (digit d) < 0x80"
  by (simp add: digit_def byte_def)

lemma str_nat_ascii: "list_all (\<lambda>c. byte c < 0x80) (str_nat n)"
proof (induction n rule: str_nat.induct)
  case (1 n)
  show ?case
  proof (cases "n < 10")
    case True
    then show ?thesis by (simp add: str_nat.simps [of n] digit_ascii)
  next
    case False
    then show ?thesis using 1 by (simp add: str_nat.simps [of n] digit_ascii)
  qed
qed

section \<open>Facts about the multithreaded handler\<close>

lemma header_block_split:
  assumes "CR \<notin> set st" and "hs \<noteq> []" and "\<forall>h \<in> set hs. CR \<notin> set h"
  shows "split_crlf (header_block st hs) = st # hs @ [[], []]"
  unfolding header_block_def using assms by (rule header_block_lines)

lemma send_error_sent:
  "2 \<le> budget s \<Longrightarrow>
   send_error date s code reason headers None =
     (s\<lparr>sent := sent s @ error_page date code reason headers, budget := budget s - 2\<rparr>, None)"
  by (simp add: send_error_def error_page_def error_body_of_def header_block_def two_sends Let_def)

lemma error_page_lines:
  assumes "CR \<notin> set date" and "CR \<notin> set reason" and "\<forall>h \<in> set headers. CR \<notin> set h"
  shows "split_crlf (hd (error_page date code reason headers)) =
     (''HTTP/1.1 '' @ str_nat code @ '' '' @ reason) #
     ([''Date: '' @ date,
       ''Server: CS538Toy/1.0'',
       ''Content-Type: text/html; charset=utf-8'',
       ''Content-Length: '' @ str_nat (length (error_body_of code reason)),
       ''Connection: close''] @ headers) @ [[], []]"
  unfolding error_page_def list.sel
  apply (subst header_block_split)
  using assms apply (simp_all add: str_nat_no_CR)
  done

lemma ok_page_lines:
  assumes "CR \<notin> set date" and "CR \<notin> set content_type"
  shows "split_crlf (hd (ok_page date content_type content)) =
     ''HTTP/1.1 200 OK'' #
     [''Date: '' @ date,
      ''Server: CS538Toy/1.0'',
      ''Content-Type: '' @ content_type,
      ''Content-Length: '' @ str_nat (length content),
      ''Connection: close''] @ [[], []]"
  unfolding ok_page_def list.sel
  apply (subst header_block_split)
  using assms apply (simp_all add: str_nat_no_CR)
  done

lemma hr_recv_fails: "handle_request env s (Inl e) = (s, Some e)"
  by (simp add: handle_request_def)

lemma hr_empty: "decode_ignore received = [] \<Longrightarrow> handle_request env s (Inr received) = (s, None)"
  by (simp add: handle_request_def)

lemma hr_bad:
  "decode_ignore received \<noteq> [] \<Longrightarrow> length (request_parts received) \<noteq> 3 \<Longrightarrow>
   handle_request env s (Inr received) = send_error (http_date env) s 400 ''Bad Request'' [] None"
  by (simp add: handle_request_def request_parts_def Let_def)

lemma hr_method:
  "decode_ignore received \<noteq> [] \<Longrightarrow> length (request_parts received) = 3 \<Longrightarrow>
   request_parts received ! 0 \<noteq> ''GET'' \<Longrightarrow>
   handle_request env s (Inr received)
     = send_error (http_date env) s 405 ''Method Not Allowed'' [''Allow: GET''] None"
  by (simp add: handle_request_def request_parts_def Let_def)

lemma hr_rejected:
  "decode_ignore received \<noteq> [] \<Longrightarrow> length (request_parts received) = 3 \<Longrightarrow>
   request_parts received ! 0 = ''GET'' \<Longrightarrow>
   safe_path (web_root env) (request_parts received ! 1) = None \<Longrightarrow>
   handle_request env s (Inr received) = send_error (http_date env) s 404 ''Not Found'' [] None"
  by (simp add: handle_request_def request_parts_def Let_def)

lemma hr_no_file:
  "decode_ignore received \<noteq> [] \<Longrightarrow> length (request_parts received) = 3 \<Longrightarrow>
   request_parts received ! 0 = ''GET'' \<Longrightarrow>
   safe_path (web_root env) (request_parts received ! 1) = Some filepath \<Longrightarrow>
   filepath = [] \<or> \<not> isfile env filepath \<Longrightarrow>
   handle_request env s (Inr received) = send_error (http_date env) s 404 ''Not Found'' [] None"
  by (simp add: handle_request_def request_parts_def Let_def)

lemma hr_read_fails:
  "decode_ignore received \<noteq> [] \<Longrightarrow> length (request_parts received) = 3 \<Longrightarrow>
   request_parts received ! 0 = ''GET'' \<Longrightarrow>
   safe_path (web_root env) (request_parts received ! 1) = Some filepath \<Longrightarrow>
   filepath \<noteq> [] \<Longrightarrow> isfile env filepath \<Longrightarrow> read_file env filepath = Inl e \<Longrightarrow>
   handle_request env s (Inr received) = (s, Some e)"
  by (simp add: handle_request_def request_parts_def Let_def)

lemma hr_ok:
  "decode_ignore received \<noteq> [] \<Longrightarrow> length (request_parts received) = 3 \<Longrightarrow>
   request_parts received ! 0 = ''GET'' \<Longrightarrow>
   safe_path (web_root env) (request_parts received ! 1) = Some filepath \<Longrightarrow>
   filepath \<noteq> [] \<Longrightarrow> isfile env filepath \<Longrightarrow> read_file env filepath = Inr content \<Longrightarrow>
   2 \<le> budget s \<Longrightarrow>
   handle_request env s (Inr received)
     = (s\<lparr>sent := sent s @ ok_page (http_date env) (mt_content_type (guess_type env filepath)) content,
          budget := budget s - 2\<rparr>, None)"
  by (simp add: handle_request_def request_parts_def Let_def ok_page_def header_block_def
      mt_content_type_def two_sends)

lemma handle_request_cases:
  assumes b: "2 \<le> budget s"
  obtains (silent) "handle_request env s rx = (s, None)"
  | (raised) e where "handle_request env s rx = (s, Some e)"
  | (refused) code reason hs where
      "(code, reason, hs) \<in> {(400, ''Bad Request'', []),
                              (405, ''Method Not Allowed'', [''Allow: GET'']),
                              (404, ''Not Found'', [])}"
      "handle_request env s rx
         = (s\<lparr>sent := sent s @ error_page (http_date env) code reason hs,
              budget := budget s - 2\<rparr>, None)"
  | (served) filepath content where
      "read_file env filepath = Inr content"
      "handle_request env s rx
         = (s\<lparr>sent := sent s @ ok_page (http_date env)
                                    (mt_content_type (guess_type env filepath)) content,
              budget := budget s - 2\<rparr>, None)"
proof (cases rx)
  case (Inl e)
  then show ?thesis using raised by (simp add: hr_recv_fails)
next
  case (Inr received)
  show ?thesis
  proof (cases "decode_ignore received = []")
    case True
    then show ?thesis using silent Inr by (simp add: hr_empty)
  next
    case ne: False
    show ?thesis
    proof (cases "length (request_parts received) = 3")
      case False
      with ne Inr b show ?thesis using refused [of 400 "''Bad Request''" "[]"]
        by (simp add: hr_bad send_error_sent)
    next
      case three: True
      show ?thesis
      proof (cases "request_parts received ! 0 = ''GET''")
        case False
        with ne three Inr b show ?thesis
          using refused [of 405 "''Method Not Allowed''" "[''Allow: GET'']"]
          by (simp add: hr_method send_error_sent)
      next
        case get: True
        show ?thesis
        proof (cases "safe_path (web_root env) (request_parts received ! 1)")
          case None
          with ne three get Inr b show ?thesis using refused [of 404 "''Not Found''" "[]"]
            by (simp add: hr_rejected send_error_sent)
        next
          case (Some filepath)
          show ?thesis
          proof (cases "filepath = [] \<or> \<not> isfile env filepath")
            case True
            with ne three get Some Inr b show ?thesis using refused [of 404 "''Not Found''" "[]"]
              by (simp add: hr_no_file send_error_sent)
          next
            case False
            then have f: "filepath \<noteq> []" "isfile env filepath" by simp_all
            show ?thesis
            proof (cases "read_file env filepath")
              case (Inl e)
              with ne three get Some f Inr show ?thesis using raised [of e]
                by (simp add: hr_read_fails)
            next
              case (Inr content)
              have "handle_request env s (Inr received)
                      = (s\<lparr>sent := sent s @ ok_page (http_date env)
                              (mt_content_type (guess_type env filepath)) content,
                           budget := budget s - 2\<rparr>, None)"
                using ne three get Some f Inr b by (rule hr_ok)
              with Inr \<open>rx = Inr received\<close> show ?thesis using served by simp
            qed
          qed
        qed
      qed
    qed
  qed
qed

lemma handle_client_cases:
  assumes b: "2 \<le> budget s"
  obtains (silent) "handle_client env s rx = (close s, None)"
  | (refused) code reason hs where
      "(code, reason, hs) \<in> {(400, ''Bad Request'', []),
                              (405, ''Method Not Allowed'', [''Allow: GET'']),
                              (404, ''Not Found'', []),
                              (500, ''Internal Server Error'', [])}"
      "handle_client env s rx
         = (close (s\<lparr>sent := sent s @ error_page (http_date env) code reason hs,
                     budget := budget s - 2\<rparr>), None)"
  | (served) filepath content where
      "read_file env filepath = Inr content"
      "handle_client env s rx
         = (close (s\<lparr>sent := sent s @ ok_page (http_date env)
                                    (mt_content_type (guess_type env filepath)) content,
                     budget := budget s - 2\<rparr>), None)"
proof (rule handle_request_cases [OF b, of env rx], goal_cases)
  case 1
  then show ?thesis using that(1) by (simp add: handle_client_def)
next
  case (2 e)
  then show ?thesis using that(2) [of 500 "''Internal Server Error''" "[]"] b
    by (simp add: handle_client_def send_error_sent)
next
  case (3 code reason hs)
  then have "handle_client env s rx
         = (close (s\<lparr>sent := sent s @ error_page (http_date env) code reason hs,
                     budget := budget s - 2\<rparr>), None)"
    by (simp add: handle_client_def)
  moreover have "(code, reason, hs) \<in> {(400, ''Bad Request'', []),
                              (405, ''Method Not Allowed'', [''Allow: GET'']),
                              (404, ''Not Found'', []),
                              (500, ''Internal Server Error'', [])}"
    using 3 by auto
  ultimately show ?thesis by (rule that(2) [rotated])
next
  case (4 filepath content)
  then show ?thesis using that(3) [of filepath content] by (simp add: handle_client_def)
qed

section \<open>Facts about the single-threaded server\<close>

lemma send_not_found_sent:
  "2 \<le> budget s \<Longrightarrow>
   send_not_found s = (s\<lparr>sent := sent s @ not_found_page, budget := budget s - 2\<rparr>, None)"
  by (simp add: send_not_found_def not_found_page_def header_block_def two_sends Let_def)

lemma st_ok_page_lines:
  assumes "CR \<notin> set content_type"
  shows "split_crlf (hd (st_ok_page content_type file_content)) =
     ''HTTP/1.1 200 OK'' #
     [''Content-Type: '' @ content_type,
      ''Content-Length: '' @ str_nat (length file_content),
      ''Connection: close''] @ [[], []]"
  unfolding st_ok_page_def list.sel
  apply (subst header_block_split)
  using assms apply (simp_all add: str_nat_no_CR)
  done

lemma not_found_page_lines:
  "split_crlf (hd not_found_page) =
     ''HTTP/1.1 404 Not Found'' #
     [''Content-Type: text/html; charset=utf-8'',
      ''Content-Length: '' @ str_nat (length error_body),
      ''Connection: close''] @ [[], []]"
  unfolding not_found_page_def list.sel
  apply (subst header_block_split)
  apply (simp_all add: str_nat_no_CR)
  done

lemma st_header_split:
  "st_header ct n =
     (''HTTP/1.1 200 OK'' @ CRLF @ ''Content-Type: '')
     @ ct @ (CRLF @ ''Content-Length: '' @ str_nat n @ CRLF @ ''Connection: close'' @ CRLF @ CRLF)"
  by (simp add: st_header_def)

lemma st_header_encode:
  "encode_latin1 (st_header ct n) =
     (case encode_latin1 ct of Inl e \<Rightarrow> Inl e | Inr ct' \<Rightarrow> Inr (st_header ct' n))"
proof -
  let ?a = "''HTTP/1.1 200 OK'' @ CRLF @ ''Content-Type: ''"
  let ?b = "CRLF @ ''Content-Length: '' @ str_nat n @ CRLF @ ''Connection: close'' @ CRLF @ CRLF"
  have a: "list_all (\<lambda>c. byte c < 0x80) ?a"
    by (simp add: CRLF_def byte_def)
  have b: "list_all (\<lambda>c. byte c < 0x80) ?b"
    using str_nat_ascii [of n] by (simp add: CRLF_def byte_def)
  have hb: "?b = [] \<or> byte (hd ?b) < 0x80"
    by (simp add: CRLF_def byte_def)
  have "encode_latin1 (ct @ ?b) =
          (case encode_latin1 ct of Inl e \<Rightarrow> Inl e | Inr ct' \<Rightarrow> Inr (ct' @ ?b))"
    unfolding encode_append [OF hb] encode_ascii [OF b] by (simp split: sum.splits)
  then have "encode_latin1 (?a @ ct @ ?b) =
          (case encode_latin1 ct of Inl e \<Rightarrow> Inl e | Inr ct' \<Rightarrow> Inr (?a @ ct' @ ?b))"
    unfolding encode_ascii_prefix [OF a] by (simp split: sum.splits)
  then show ?thesis
    unfolding st_header_split .
qed

lemma st_header_block:
  "st_header ct n =
     header_block ''HTTP/1.1 200 OK''
       [''Content-Type: '' @ ct, ''Content-Length: '' @ str_nat n, ''Connection: close'']"
  by (simp add: st_header_def header_block_def)

lemma st_ok_page_header:
  "st_ok_page ct file_content = [st_header ct (length file_content), file_content]"
  by (simp add: st_ok_page_def st_header_block)

lemma serve_request_header:
  "serve_request env s rx =
     (case rx of
        Inl e \<Rightarrow> (s, Some e)
      | Inr received \<Rightarrow>
          if decode_ignore received = [] then (s, None)
          else
            (case parse_request_line (request_first_line received) of
               Inl e \<Rightarrow> (s, Some e)
             | Inr (method, path, version) \<Rightarrow>
                 (case st_read env (st_content_type (guess_type env (request_filepath path)))
                         (request_filepath path) of
                    Inl e \<Rightarrow> (s, Some e)
                  | Inr file_content \<Rightarrow>
                      (case encode_latin1
                              (st_header (st_content_type (guess_type env (request_filepath path)))
                                 (length file_content)) of
                         Inl e \<Rightarrow> (s, Some e)
                       | Inr header_bytes \<Rightarrow>
                           and_then (sendall s header_bytes) (\<lambda>s1. sendall s1 file_content)))))"
  by (simp add: serve_request_def request_first_line_def st_read_def st_content_type_def
      st_header_def Let_def split: sum.splits)

lemma sr_recv_fails: "serve_request env s (Inl e) = (s, Some e)"
  by (simp add: serve_request_def)

lemma sr_empty: "decode_ignore received = [] \<Longrightarrow> serve_request env s (Inr received) = (s, None)"
  by (simp add: serve_request_def)

lemma sr_method:
  "decode_ignore received \<noteq> [] \<Longrightarrow>
   parse_request_line (request_first_line received) = Inl e \<Longrightarrow>
   serve_request env s (Inr received) = (s, Some e)"
  by (simp add: serve_request_header)

lemma sr_read_fails:
  "decode_ignore received \<noteq> [] \<Longrightarrow>
   parse_request_line (request_first_line received) = Inr (method, path, version) \<Longrightarrow>
   st_read env (st_content_type (guess_type env (request_filepath path))) (request_filepath path)
     = Inl e \<Longrightarrow>
   serve_request env s (Inr received) = (s, Some e)"
  by (simp add: serve_request_header)

lemma sr_encode_fails:
  "decode_ignore received \<noteq> [] \<Longrightarrow>
   parse_request_line (request_first_line received) = Inr (method, path, version) \<Longrightarrow>
   st_read env (st_content_type (guess_type env (request_filepath path))) (request_filepath path)
     = Inr file_content \<Longrightarrow>
   encode_latin1 (st_content_type (guess_type env (request_filepath path))) = Inl e \<Longrightarrow>
   serve_request env s (Inr received) = (s, Some e)"
  by (simp add: serve_request_header st_header_encode)

lemma sr_ok:
  "decode_ignore received \<noteq> [] \<Longrightarrow>
   parse_request_line (request_first_line received) = Inr (method, path, version) \<Longrightarrow>
   st_read env (st_content_type (guess_type env (request_filepath path))) (request_filepath path)
     = Inr file_content \<Longrightarrow>
   encode_latin1 (st_content_type (guess_type env (request_filepath path))) = Inr sent_type \<Longrightarrow>
   2 \<le> budget s \<Longrightarrow>
   serve_request env s (Inr received)
     = (s\<lparr>sent := sent s @ st_ok_page sent_type file_content, budget := budget s - 2\<rparr>, None)"
  by (simp add: serve_request_header st_header_encode st_ok_page_header two_sends)

lemma serve_request_cases:
  assumes b: "2 \<le> budget s"
  obtains (silent) "serve_request env s rx = (s, None)"
  | (raised) e where "serve_request env s rx = (s, Some e)"
  | (served) filepath file_content sent_type where
      "st_read env (st_content_type (guess_type env filepath)) filepath = Inr file_content"
      "encode_latin1 (st_content_type (guess_type env filepath)) = Inr sent_type"
      "serve_request env s rx
         = (s\<lparr>sent := sent s @ st_ok_page sent_type file_content,
              budget := budget s - 2\<rparr>, None)"
proof (cases rx)
  case (Inl e)
  then show ?thesis using raised by (simp add: sr_recv_fails)
next
  case (Inr received)
  show ?thesis
  proof (cases "decode_ignore received = []")
    case True
    then show ?thesis using silent Inr by (simp add: sr_empty)
  next
    case ne: False
    show ?thesis
    proof (cases "parse_request_line (request_first_line received)")
      case (Inl e)
      with ne \<open>rx = Inr received\<close> show ?thesis using raised [of e] by (simp add: sr_method)
    next
      case parsed: (Inr mpv)
      obtain m p v where mpv: "mpv = (m, p, v)"
        by (cases mpv) auto
      let ?f = "request_filepath p"
      let ?ct = "st_content_type (guess_type env ?f)"
      show ?thesis
      proof (cases "st_read env ?ct ?f")
        case (Inl e)
        have "serve_request env s (Inr received) = (s, Some e)"
          using ne parsed [unfolded mpv] Inl by (rule sr_read_fails)
        with \<open>rx = Inr received\<close> show ?thesis using raised [of e] by simp
      next
        case rd: (Inr file_content)
        show ?thesis
        proof (cases "encode_latin1 ?ct")
          case (Inl e)
          have "serve_request env s (Inr received) = (s, Some e)"
            using ne parsed [unfolded mpv] rd Inl by (rule sr_encode_fails)
          with \<open>rx = Inr received\<close> show ?thesis using raised [of e] by simp
        next
          case (Inr sent_type)
          have "serve_request env s (Inr received)
                  = (s\<lparr>sent := sent s @ st_ok_page sent_type file_content,
                       budget := budget s - 2\<rparr>, None)"
            using ne parsed [unfolded mpv] rd Inr b by (rule sr_ok)
          with rd Inr \<open>rx = Inr received\<close> show ?thesis
            using served [of ?f file_content sent_type] by simp
        qed
      qed
    qed
  qed
qed

lemma serve_connection_cases:
  assumes b: "2 \<le> budget s"
  obtains (silent) "serve_connection env s rx = (close s, None)"
  | (not_found) "serve_connection env s rx
         = (close (s\<lparr>sent := sent s @ not_found_page, budget := budget s - 2\<rparr>), None)"
  | (escaped) e where "e \<noteq> IOError" "serve_connection env s rx = (close s, Some e)"
  | (served) filepath file_content sent_type where
      "st_read env (st_content_type (guess_type env filepath)) filepath = Inr file_content"
      "encode_latin1 (st_content_type (guess_type env filepath)) = Inr sent_type"
      "serve_connection env s rx
         = (close (s\<lparr>sent := sent s @ st_ok_page sent_type file_content,
                     budget := budget s - 2\<rparr>), None)"
proof (rule serve_request_cases [OF b, of env rx], goal_cases)
  case 1
  then show ?thesis using that(1) by (simp add: serve_connection_def)
next
  case (2 e)
  show ?thesis
  proof (cases "e = IOError")
    case True
    with 2 b show ?thesis using that(2) by (simp add: serve_connection_def send_not_found_sent)
  next
    case False
    with 2 show ?thesis using that(3) [of e] by (simp add: serve_connection_def)
  qed
next
  case (3 filepath file_content sent_type)
  then show ?thesis using that(4) [of filepath file_content sent_type]
    by (simp add: serve_connection_def)
qed

section \<open>Facts about the responses\<close>

lemma split_crlf_not_Nil: "split_crlf x \<noteq> []"
  by (induction x rule: split_crlf.induct) (auto split: list.splits)

lemma response_of_pair:
  "response_status [hb, b] = hd (split_crlf hb)"
  "response_header name [hb, b] = header_value name (tl (split_crlf hb))"
  "response_body [hb, b] = b"
  using split_crlf_not_Nil [of hb]
  by (simp_all add: response_status_def response_header_def response_body_def split: list.splits)

lemma error_page_response:
  assumes "CR \<notin> set date" and "CR \<notin> set reason" and "\<forall>h \<in> set headers. CR \<notin> set h"
  shows "response_header name (error_page date code reason headers) =
           header_value name
             ([''Date: '' @ date,
               ''Server: CS538Toy/1.0'',
               ''Content-Type: text/html; charset=utf-8'',
               ''Content-Length: '' @ str_nat (length (error_body_of code reason)),
               ''Connection: close''] @ headers @ [[], []])"
    and "response_status (error_page date code reason headers)
           = ''HTTP/1.1 '' @ str_nat code @ '' '' @ reason"
    and "response_body (error_page date code reason headers) = error_body_of code reason"
    and "length (error_page date code reason headers) = 2"
  using error_page_lines [OF assms, of code]
  by (simp_all add: error_page_def response_of_pair)

lemma ok_page_response:
  assumes "CR \<notin> set date" and "CR \<notin> set content_type"
  shows "response_header name (ok_page date content_type content) =
           header_value name
             [''Date: '' @ date,
              ''Server: CS538Toy/1.0'',
              ''Content-Type: '' @ content_type,
              ''Content-Length: '' @ str_nat (length content),
              ''Connection: close'', [], []]"
    and "response_status (ok_page date content_type content) = ''HTTP/1.1 200 OK''"
    and "response_body (ok_page date content_type content) = content"
    and "length (ok_page date content_type content) = 2"
  using ok_page_lines [OF assms, of content]
  by (simp_all add: ok_page_def response_of_pair)

lemma st_ok_page_response:
  assumes "CR \<notin> set content_type"
  shows "response_header name (st_ok_page content_type content) =
           header_value name
             [''Content-Type: '' @ content_type,
              ''Content-Length: '' @ str_nat (length content),
              ''Connection: close'', [], []]"
    and "response_status (st_ok_page content_type content) = ''HTTP/1.1 200 OK''"
    and "response_body (st_ok_page content_type content) = content"
    and "length (st_ok_page content_type content) = 2"
  using st_ok_page_lines [OF assms, of content]
  by (simp_all add: st_ok_page_def response_of_pair)

lemma not_found_page_response:
  shows "response_header name not_found_page =
           header_value name
             [''Content-Type: text/html; charset=utf-8'',
              ''Content-Length: '' @ str_nat (length error_body),
              ''Connection: close'', [], []]"
    and "response_status not_found_page = ''HTTP/1.1 404 Not Found''"
    and "response_body not_found_page = error_body"
    and "length not_found_page = 2"
  using not_found_page_lines
  by (simp_all add: not_found_page_def response_of_pair)

lemma mt_content_type_no_CR:
  "\<forall>t. guess = Some t \<longrightarrow> CR \<notin> set t \<Longrightarrow> CR \<notin> set (mt_content_type guess)"
  by (auto simp: mt_content_type_def Let_def split: option.splits)

lemma st_content_type_no_CR:
  "\<forall>t. guess = Some t \<longrightarrow> CR \<notin> set t \<Longrightarrow> CR \<notin> set (st_content_type guess)"
  by (auto simp: st_content_type_def Let_def split: option.splits)

lemma error_page_content_length:
  assumes "CR \<notin> set date" and "CR \<notin> set reason" and "\<forall>h \<in> set headers. CR \<notin> set h"
  shows "content_length_matches (error_page date code reason headers)"
  by (simp add: content_length_matches_def error_page_response [OF assms])

lemma ok_page_content_length:
  assumes "CR \<notin> set date" and "CR \<notin> set content_type"
  shows "content_length_matches (ok_page date content_type content)"
  by (simp add: content_length_matches_def ok_page_response [OF assms])

lemma st_ok_page_content_length:
  assumes "CR \<notin> set content_type"
  shows "content_length_matches (st_ok_page content_type content)"
  by (simp add: content_length_matches_def st_ok_page_response [OF assms])

lemma not_found_page_content_length: "content_length_matches not_found_page"
  by (simp add: content_length_matches_def not_found_page_response)

section \<open>Facts about the example installation\<close>

lemma example_types_no_CR: "\<forall>p t. guess_type example_env p = Some t \<longrightarrow> CR \<notin> set t"
  by (auto simp: example_env_def example_types_def split: if_splits)

lemma example_date_no_CR: "CR \<notin> set (http_date example_env)"
  by (simp add: example_env_def)

lemma fresh_ready: "sent fresh = []" "2 \<le> budget fresh"
  by (simp_all add: fresh_def)

section \<open>Facts about path resolution\<close>

lemma raw_no_sep: "\<not> prefix ''/'' (request_raw url_path)"
proof -
  define d where "d = dropWhile (\<lambda>c. c = CHR ''/'') (unquote (takeWhile (\<lambda>c. c \<noteq> CHR ''?'') url_path))"
  show ?thesis
  proof (cases d)
    case Nil
    then show ?thesis by (simp add: request_raw_def d_def [symmetric])
  next
    case (Cons y ys)
    then have "d \<noteq> []" by simp
    then have "hd d \<noteq> CHR ''/''"
      unfolding d_def using hd_dropWhile [of "\<lambda>c. c = CHR ''/''"] by blast
    with Cons show ?thesis by (simp add: request_raw_def d_def [symmetric])
  qed
qed

lemma raw_eq_spec:
  assumes "\<not> prefix ''//'' (unquote (takeWhile (\<lambda>c. c \<noteq> CHR ''?'') url_path))"
  shows "request_raw url_path = request_raw_spec url_path"
proof -
  define x where "x = unquote (takeWhile (\<lambda>c. c \<noteq> CHR ''?'') url_path)"
  have nn: "\<not> prefix ''//'' x" using assms by (simp add: x_def)
  have "dropWhile (\<lambda>c. c = CHR ''/'') x = strip_one_separator x"
  proof (cases x)
    case Nil
    then show ?thesis by (simp add: strip_one_separator_def)
  next
    case (Cons c cs)
    show ?thesis
    proof (cases "c = CHR ''/''")
      case True
      with nn Cons have "\<not> prefix ''/'' cs" by simp
      then have "dropWhile (\<lambda>c. c = CHR ''/'') cs = cs" by (cases cs) auto
      with True Cons show ?thesis by (simp add: strip_one_separator_def)
    next
      case False
      with Cons show ?thesis by (simp add: strip_one_separator_def)
    qed
  qed
  then show ?thesis
    by (simp add: request_raw_def request_raw_spec_def x_def [symmetric])
qed

lemma take_drop_commute:
  "takeWhile (\<lambda>c. c \<noteq> CHR ''?'') (dropWhile (\<lambda>c. c = CHR ''/'') p)
     = dropWhile (\<lambda>c. c = CHR ''/'') (takeWhile (\<lambda>c. c \<noteq> CHR ''?'') p)"
  by (induction p) auto

lemma unquote_plain: "CHR ''%'' \<notin> set s \<Longrightarrow> unquote s = s"
  by (simp add: unquote_def)

lemma filepath_eq_raw:
  assumes "CHR ''%'' \<notin> set path" and "request_filepath path \<noteq> []"
  shows "request_filepath path = request_raw path"
proof (cases "path = ''/''")
  case True
  then show ?thesis by (simp add: request_filepath_def request_raw_def unquote_plain)
next
  case False
  have "CHR ''%'' \<notin> set (takeWhile (\<lambda>c. c \<noteq> CHR ''?'') path)"
    using assms(1) by (auto dest: set_takeWhileD)
  then have u: "unquote (takeWhile (\<lambda>c. c \<noteq> CHR ''?'') path) = takeWhile (\<lambda>c. c \<noteq> CHR ''?'') path"
    by (rule unquote_plain)
  have f: "request_filepath path
             = dropWhile (\<lambda>c. c = CHR ''/'') (takeWhile (\<lambda>c. c \<noteq> CHR ''?'') path)"
    using False by (simp add: request_filepath_def take_drop_commute)
  with assms(2) have "dropWhile (\<lambda>c. c = CHR ''/'') (takeWhile (\<lambda>c. c \<noteq> CHR ''?'') path) \<noteq> []"
    by simp
  then show ?thesis
    unfolding f request_raw_def u Let_def by (simp only: if_False)
qed

lemma filepath_no_sep: "\<not> prefix ''/'' (request_filepath path)"
proof -
  define p where "p = (if path = ''/'' then ''/webservertesting.html'' else path)"
  define d where "d = dropWhile (\<lambda>c. c = CHR ''/'') p"
  have f: "request_filepath path = takeWhile (\<lambda>c. c \<noteq> CHR ''?'') d"
    by (simp add: request_filepath_def p_def d_def)
  show ?thesis
  proof (cases d)
    case Nil
    then show ?thesis by (simp add: f)
  next
    case (Cons y ys)
    then have "d \<noteq> []" by simp
    then have "hd d \<noteq> CHR ''/''"
      unfolding d_def using hd_dropWhile [of "\<lambda>c. c = CHR ''/''"] by blast
    with Cons show ?thesis by (simp add: f)
  qed
qed

lemma raw_default:
  "dropWhile (\<lambda>c. c = CHR ''/'') (unquote (takeWhile (\<lambda>c. c \<noteq> CHR ''?'') url_path)) = [] \<Longrightarrow>
   request_raw url_path = ''webservertesting.html''"
  by (simp add: request_raw_def del: dropWhile_eq_Nil_conv)

lemma drop_separators:
  "\<not> prefix ''/'' r \<Longrightarrow> dropWhile (\<lambda>c. c = CHR ''/'') (replicate n CHR ''/'' @ r) = r"
  by (induction n) (auto simp: dropWhile_eq_self_iff neq_Nil_conv)

lemma raw_of_decoded:
  assumes "unquote (takeWhile (\<lambda>c. c \<noteq> CHR ''?'') url_path) = replicate n CHR ''/'' @ r"
    and "\<not> prefix ''/'' r"
  shows "request_raw url_path = (if r = [] then ''webservertesting.html'' else r)"
  unfolding request_raw_def assms(1) drop_separators [OF assms(2)] by simp

lemma filepath_of_path:
  assumes "path \<noteq> ''/''" and "path = replicate m CHR ''/'' @ q" and "\<not> prefix ''/'' q"
  shows "request_filepath path = takeWhile (\<lambda>c. c \<noteq> CHR ''?'') q"
proof -
  have "request_filepath path
          = takeWhile (\<lambda>c. c \<noteq> CHR ''?'') (dropWhile (\<lambda>c. c = CHR ''/'') path)"
    using assms(1) by (simp add: request_filepath_def)
  then show ?thesis
    unfolding assms(2) drop_separators [OF assms(3)] .
qed

lemma safe_path_is_join:
  "safe_path root url_path =
     (if prefix root (normpath (path_join root (request_raw url_path)))
      then Some (normpath (path_join root (request_raw url_path))) else None)"
  by (simp add: safe_path_def Let_def)

section \<open>Facts about status lines and headers\<close>

lemma str_nat_codes:
  "str_nat 400 = ''400''" "str_nat 404 = ''404''" "str_nat 405 = ''405''" "str_nat 500 = ''500''"
  by code_simp+

lemma header_block_first:
  "CR \<notin> set st \<Longrightarrow> hd (split_crlf (header_block st hs)) = st"
  unfolding header_block_def by (simp add: split_crlf_line)

lemma error_page_status:
  assumes "CR \<notin> set reason"
  shows "response_status (error_page date code reason headers)
           = ''HTTP/1.1 '' @ str_nat code @ '' '' @ reason"
proof -
  have "CR \<notin> set (''HTTP/1.1 '' @ str_nat code @ '' '' @ reason)"
    using assms by (simp add: str_nat_no_CR)
  then show ?thesis
    unfolding error_page_def response_of_pair by (rule header_block_first)
qed

lemma error_page_mandatory:
  assumes "CR \<notin> set date" and "CR \<notin> set reason" and "\<forall>h \<in> set headers. CR \<notin> set h"
  shows "has_mandatory_headers (error_page date code reason headers)"
  by (simp add: has_mandatory_headers_def error_page_response [OF assms])

lemma error_page_has_form:
  assumes "CR \<notin> set date" and "CR \<notin> set reason" and "\<forall>h \<in> set headers. CR \<notin> set h"
  shows "error_page_form (error_page date code reason headers)"
  by (simp add: error_page_form_def error_page_response [OF assms] error_body_of_def)

lemma ok_page_mandatory:
  assumes "CR \<notin> set date" and "CR \<notin> set content_type"
  shows "has_mandatory_headers (ok_page date content_type content)"
  by (simp add: has_mandatory_headers_def ok_page_response [OF assms])

lemma st_ok_page_mandatory:
  assumes "CR \<notin> set content_type"
  shows "has_mandatory_headers (st_ok_page content_type content)"
  by (simp add: has_mandatory_headers_def st_ok_page_response [OF assms])

lemma not_found_page_mandatory: "has_mandatory_headers not_found_page"
  by (simp add: has_mandatory_headers_def not_found_page_response)

lemma parts_nonempty: "request_parts received = [a, b, c] \<Longrightarrow> decode_ignore received \<noteq> []"
  by (auto simp: request_parts_def flush_def)

lemma first_line_nonempty:
  "split_ws [] (request_first_line received) = [a, b, c] \<Longrightarrow> decode_ignore received \<noteq> []"
  by (auto simp: request_first_line_def flush_def)

section \<open>Facts about request lines\<close>

lemma sr_same:
  "decode_ignore r1 \<noteq> [] \<Longrightarrow> decode_ignore r2 \<noteq> [] \<Longrightarrow>
   parse_request_line (request_first_line r1) = parse_request_line (request_first_line r2) \<Longrightarrow>
   serve_request env s (Inr r1) = serve_request env s (Inr r2)"
  by (simp add: serve_request_header)

lemma parse_default:
  "length (split_ws [] l) \<noteq> 3 \<Longrightarrow> parse_request_line l = Inr (''GET'', ''/'', ''HTTP/1.1'')"
  by (auto simp: parse_request_line_def split: list.splits)

lemma plain_get_root:
  "decode_ignore ''GET / HTTP/1.1'' \<noteq> []"
  "parse_request_line (request_first_line ''GET / HTTP/1.1'') = Inr (''GET'', ''/'', ''HTTP/1.1'')"
  by code_simp+

section \<open>Facts about serving files\<close>

lemma normpath_nonempty: "normpath p \<noteq> []"
  by (simp add: normpath_def Let_def)

lemma safe_path_nonempty: "safe_path root url_path = Some filepath \<Longrightarrow> filepath \<noteq> []"
  by (auto simp: safe_path_def Let_def normpath_nonempty split: if_splits)

lemma universal_newlines_plain: "CR \<notin> set xs \<Longrightarrow> universal_newlines xs = xs"
  by (induction xs rule: universal_newlines.induct) auto

lemma parse_get:
  "split_ws [] l = [''GET'', path, version] \<Longrightarrow>
   parse_request_line l = Inr (''GET'', path, version)"
  by (simp add: parse_request_line_def)

text \<open>What the multithreaded server sends for a file it can read.\<close>

lemma handle_client_serves:
  assumes s: "sent s = []" and b: "2 \<le> budget s"
    and p: "request_parts received = [''GET'', path, version]"
    and f: "safe_path (web_root env) path = Some filepath" "isfile env filepath"
    and r: "read_file env filepath = Inr content"
  shows "sent (fst (handle_client env s (Inr received)))
           = ok_page (http_date env) (mt_content_type (guess_type env filepath)) content"
proof -
  have ne: "decode_ignore received \<noteq> []" using p by (rule parts_nonempty)
  have "handle_request env s (Inr received)
          = (s\<lparr>sent := sent s @ ok_page (http_date env)
                                 (mt_content_type (guess_type env filepath)) content,
               budget := budget s - 2\<rparr>, None)"
    using ne p f r b safe_path_nonempty [OF f(1)] by (intro hr_ok) simp_all
  then show ?thesis by (simp add: handle_client_def close_def s)
qed

text \<open>What the single-threaded server sends for a file it can read.\<close>

lemma serve_connection_serves:
  assumes s: "sent s = []" and b: "2 \<le> budget s"
    and p: "split_ws [] (request_first_line received) = [''GET'', path, version]"
    and r: "st_read env (st_content_type (guess_type env (request_filepath path)))
              (request_filepath path) = Inr file_content"
    and e: "encode_latin1 (st_content_type (guess_type env (request_filepath path)))
              = Inr sent_type"
  shows "sent (fst (serve_connection env s (Inr received))) = st_ok_page sent_type file_content"
proof -
  have ne: "decode_ignore received \<noteq> []" using p by (rule first_line_nonempty)
  have "serve_request env s (Inr received)
          = (s\<lparr>sent := sent s @ st_ok_page sent_type file_content,
               budget := budget s - 2\<rparr>, None)"
    using ne parse_get [OF p] r e b by (rule sr_ok)
  then show ?thesis by (simp add: serve_connection_def close_def s)
qed

lemma ok_page_serves:
  "CR \<notin> set date \<Longrightarrow> CR \<notin> set content_type \<Longrightarrow>
   serves (ok_page date content_type content) content_type content"
  by (simp add: serves_def ok_page_response)

lemma st_ok_page_serves:
  "CR \<notin> set content_type \<Longrightarrow>
   serves (st_ok_page content_type content) content_type content"
  by (simp add: serves_def st_ok_page_response)

lemma handle_client_raises_nothing: "snd (handle_client env s rx) = None"
  by (simp add: handle_client_def split: prod.splits option.splits)

lemma handle_client_closes: "closed (fst (handle_client env s rx))"
  by (simp add: handle_client_def close_def split: prod.splits option.splits)

lemma serve_connection_closes: "closed (fst (serve_connection env s rx))"
  by (simp add: serve_connection_def close_def split: prod.splits option.splits)

lemma universal_newlines_no_CR: "CR \<notin> set (universal_newlines xs)"
  by (induction xs rule: universal_newlines.induct) auto

lemma universal_newlines_length:
  "length (universal_newlines xs) + count_crlf xs = length xs"
  by (induction xs rule: universal_newlines.induct) auto

lemma universal_newlines_fixed: "universal_newlines xs = xs \<longleftrightarrow> CR \<notin> set xs"
proof
  assume "universal_newlines xs = xs"
  then show "CR \<notin> set xs" using universal_newlines_no_CR [of xs] by simp
next
  assume "CR \<notin> set xs"
  then show "universal_newlines xs = xs" by (rule universal_newlines_plain)
qed

lemma mt_content_type_cases:
  "mt_content_type guess =
     (case guess of
        None \<Rightarrow> ''application/octet-stream''
      | Some t \<Rightarrow> if t = [] then ''application/octet-stream''
                  else if prefix ''text/'' t then t @ ''; charset=utf-8'' else t)"
  by (simp add: mt_content_type_def split: option.splits)

lemma st_content_type_cases:
  "st_content_type guess =
     (case guess of
        None \<Rightarrow> ''application/octet-stream''
      | Some t \<Rightarrow> if prefix ''text/'' t then t @ ''; charset=utf-8'' else t)"
  by (simp add: st_content_type_def split: option.splits)

lemma st_read_as_bytes:
  "\<not> prefix ''text/'' content_type \<Longrightarrow> st_read env content_type filepath = read_file env filepath"
  by (simp add: st_read_def)

lemma st_read_as_text:
  "prefix ''text/'' content_type \<Longrightarrow> read_file env filepath = Inr content \<Longrightarrow>
   decode_strict content = Inr content \<Longrightarrow>
   st_read env content_type filepath = Inr (universal_newlines content)"
  by (simp add: st_read_def read_text_def)

section \<open>Path containment\<close>

text \<open>
  C10. For every \<open>url_path\<close>, \<open>safe_path\<close> returns \<open>None\<close> or a string that starts,
  character for character, with \<open>WEB_ROOT\<close>; and the test is on strings only: whenever
  the normalised join starts with the \<open>WEB_ROOT\<close> string it is returned, as for a
  sibling directory whose name extends the root's name.
\<close>

theorem safe_path_string_prefix:
  "(safe_path root url_path = Some p \<longrightarrow> prefix root p) \<and>
   (prefix root (normpath (path_join root (request_raw url_path))) \<longrightarrow>
      safe_path root url_path = Some (normpath (path_join root (request_raw url_path))))"
  by (auto simp: safe_path_def Let_def split: if_splits)

theorem safe_path_string_prefix_witness:
  "safe_path ''/srv/www'' ''/../www-private/key.pem'' = Some ''/srv/www-private/key.pem'' \<and>
   prefix ''/srv/www'' ''/srv/www-private/key.pem'' \<and>
   normpath (path_join ''/srv/www'' (request_raw ''/../www-private/key.pem''))
     = ''/srv/www-private/key.pem''"
proof -
  have n: "normpath (path_join ''/srv/www'' (request_raw ''/../www-private/key.pem''))
             = ''/srv/www-private/key.pem''"
    by code_simp
  have "prefix ''/srv/www''
          (normpath (path_join ''/srv/www'' (request_raw ''/../www-private/key.pem'')))"
    unfolding n by simp
  then have s: "safe_path ''/srv/www'' ''/../www-private/key.pem''
                  = Some ''/srv/www-private/key.pem''"
    using safe_path_string_prefix [THEN conjunct2, THEN mp,
        of "''/srv/www''" "''/../www-private/key.pem''"]
    unfolding n by simp
  have p: "prefix ''/srv/www'' ''/srv/www-private/key.pem''"
    by (rule safe_path_string_prefix [THEN conjunct1, THEN mp, OF s])
  show ?thesis by (intro conjI s p n)
qed

text \<open>
  C1. No request path, however crafted, resolves to a target outside the root: every
  path is rejected with 404 or resolves inside the root. The code does not keep this.
  The multithreaded server tests the normalised path against the root as a string, so
  an encoded \<open>..\<close> that leads into a sibling directory whose name extends the root's
  name resolves, and the file is served with status 200; the single-threaded server
  opens the path with its \<open>..\<close> components as sent.
\<close>

theorem traversal_leaves_root:
  "safe_path ''/srv/www'' ''/%2e%2e/www-private/key.pem'' = Some ''/srv/www-private/key.pem'' \<and>
   \<not> inside_root ''/srv/www'' ''/srv/www-private/key.pem'' \<and>
   response_status
     (sent (fst (handle_client example_env fresh (get_request ''/%2e%2e/www-private/key.pem''))))
     = ''HTTP/1.1 200 OK'' \<and>
   response_body
     (sent (fst (handle_client example_env fresh (get_request ''/%2e%2e/www-private/key.pem''))))
     = ''secret'' \<and>
   request_filepath ''/../www-private/key.pem'' = ''../www-private/key.pem'' \<and>
   response_body
     (sent (fst (serve_connection example_env fresh (get_request ''/../www-private/key.pem''))))
     = ''secret''"
  by code_simp

section \<open>Framing\<close>

text \<open>
  C6. On a connection that takes both writes, every response either server sends,
  success or error, has a Content-Length header whose value is the decimal length in
  bytes of the body sent after the header block. The clock and the MIME table give
  header text without CR.
\<close>

theorem content_length_is_body_length:
  assumes s: "sent s = []" and b: "2 \<le> budget s"
    and d: "CR \<notin> set (http_date env)"
    and g: "\<forall>p t. guess_type env p = Some t \<longrightarrow> CR \<notin> set t"
  shows "(sent (fst (handle_client env s rx)) = [] \<or>
          length (sent (fst (handle_client env s rx))) = 2 \<and>
          content_length_matches (sent (fst (handle_client env s rx)))) \<and>
         (sent (fst (serve_connection env s rx)) = [] \<or>
          length (sent (fst (serve_connection env s rx))) = 2 \<and>
          content_length_matches (sent (fst (serve_connection env s rx))))"
proof
  show "sent (fst (handle_client env s rx)) = [] \<or>
          length (sent (fst (handle_client env s rx))) = 2 \<and>
          content_length_matches (sent (fst (handle_client env s rx)))"
  proof (rule handle_client_cases [OF b, of env rx], goal_cases)
    case 1
    then show ?case by (simp add: close_def s)
  next
    case (2 code reason hs)
    then have "CR \<notin> set reason" "\<forall>h \<in> set hs. CR \<notin> set h" by auto
    with d have "content_length_matches (error_page (http_date env) code reason hs)"
      "length (error_page (http_date env) code reason hs) = 2"
      by (simp_all add: error_page_content_length error_page_response)
    with 2 show ?case by (simp add: close_def s)
  next
    case (3 filepath content)
    have "CR \<notin> set (mt_content_type (guess_type env filepath))"
      using g by (intro mt_content_type_no_CR) simp
    with d have "content_length_matches
        (ok_page (http_date env) (mt_content_type (guess_type env filepath)) content)"
      "length (ok_page (http_date env) (mt_content_type (guess_type env filepath)) content) = 2"
      by (simp_all add: ok_page_content_length ok_page_response)
    with 3 show ?case by (simp add: close_def s)
  qed
  show "sent (fst (serve_connection env s rx)) = [] \<or>
          length (sent (fst (serve_connection env s rx))) = 2 \<and>
          content_length_matches (sent (fst (serve_connection env s rx)))"
  proof (rule serve_connection_cases [OF b, of env rx], goal_cases)
    case 1
    then show ?case by (simp add: close_def s)
  next
    case 2
    then show ?case
      by (simp add: close_def s not_found_page_content_length not_found_page_response)
  next
    case (3 e)
    then show ?case by (simp add: close_def s)
  next
    case (4 filepath file_content sent_type)
    have "CR \<notin> set (st_content_type (guess_type env filepath))"
      using g by (intro st_content_type_no_CR) simp
    then have "CR \<notin> set sent_type"
      using 4(2) by (rule encode_no_CR)
    then have "content_length_matches (st_ok_page sent_type file_content)"
      "length (st_ok_page sent_type file_content) = 2"
      by (simp_all add: st_ok_page_content_length st_ok_page_response)
    with 4 show ?case by (simp add: close_def s)
  qed
qed

text \<open>The theorem at a served file and at a missing one.\<close>

theorem content_length_is_body_length_witness:
  "sent fresh = [] \<and> 2 \<le> budget fresh \<and> CR \<notin> set (http_date example_env) \<and>
   length (sent (fst (handle_client example_env fresh (get_request ''/notes.txt'')))) = 2 \<and>
   content_length_matches (sent (fst (handle_client example_env fresh (get_request ''/notes.txt'')))) \<and>
   length (sent (fst (serve_connection example_env fresh (get_request ''/nothing.html'')))) = 2 \<and>
   content_length_matches (sent (fst (serve_connection example_env fresh (get_request ''/nothing.html''))))"
proof -
  have m: "sent (fst (handle_client example_env fresh (get_request ''/notes.txt''))) \<noteq> []"
    by code_simp
  have t: "sent (fst (serve_connection example_env fresh (get_request ''/nothing.html''))) \<noteq> []"
    by code_simp
  note a = content_length_is_body_length
    [OF fresh_ready example_date_no_CR example_types_no_CR, of "get_request ''/notes.txt''"]
  note b = content_length_is_body_length
    [OF fresh_ready example_date_no_CR example_types_no_CR, of "get_request ''/nothing.html''"]
  from a m have 1: "length (sent (fst (handle_client example_env fresh (get_request ''/notes.txt'')))) = 2 \<and>
   content_length_matches (sent (fst (handle_client example_env fresh (get_request ''/notes.txt''))))"
    by blast
  from b t have 2: "length (sent (fst (serve_connection example_env fresh (get_request ''/nothing.html'')))) = 2 \<and>
   content_length_matches (sent (fst (serve_connection example_env fresh (get_request ''/nothing.html''))))"
    by blast
  show ?thesis
    using 1 2 fresh_ready example_date_no_CR by blast
qed

section \<open>The empty request\<close>

text \<open>
  C9. When zero bytes are received, both servers send nothing, attempt no write, close
  the socket, and raise nothing.
\<close>

theorem empty_request_closes_silently:
  "handle_client env s (Inr []) = (s\<lparr>closed := True\<rparr>, None) \<and>
   serve_connection env s (Inr []) = (s\<lparr>closed := True\<rparr>, None)"
  by (simp add: handle_client_def handle_request_def serve_connection_def serve_request_def
      decode_ignore_def close_def)

section \<open>Headers and error pages\<close>

text \<open>
  C8 as amended. On a connection that takes both writes, every response either server
  sends carries Content-Type, Content-Length and \<open>Connection: close\<close>, and every error
  response has the content type \<open>text/html; charset=utf-8\<close>. In the multithreaded
  server the body of an error response is the page built from the code and reason of
  its status line. The single-threaded server's only error response is 404, and its
  body is that page with a paragraph of explanation added. The clock and the MIME
  table give header text without CR.
\<close>

theorem mandatory_headers_and_error_pages:
  assumes s: "sent s = []" and b: "2 \<le> budget s"
    and d: "CR \<notin> set (http_date env)"
    and g: "\<forall>p t. guess_type env p = Some t \<longrightarrow> CR \<notin> set t"
  shows "(sent (fst (handle_client env s rx)) = [] \<or>
          length (sent (fst (handle_client env s rx))) = 2 \<and>
          has_mandatory_headers (sent (fst (handle_client env s rx))) \<and>
          (response_status (sent (fst (handle_client env s rx))) \<noteq> ''HTTP/1.1 200 OK'' \<longrightarrow>
             error_page_form (sent (fst (handle_client env s rx))))) \<and>
         (sent (fst (serve_connection env s rx)) = [] \<or>
          length (sent (fst (serve_connection env s rx))) = 2 \<and>
          has_mandatory_headers (sent (fst (serve_connection env s rx))) \<and>
          (response_status (sent (fst (serve_connection env s rx))) \<noteq> ''HTTP/1.1 200 OK'' \<longrightarrow>
             response_status (sent (fst (serve_connection env s rx))) = ''HTTP/1.1 404 Not Found'' \<and>
             response_header ''Content-Type'' (sent (fst (serve_connection env s rx)))
               = Some ''text/html; charset=utf-8'' \<and>
             response_body (sent (fst (serve_connection env s rx)))
               = ''<html><body><h1>404 Not Found</h1><p>The requested file was not found on the server.</p></body></html>''))"
proof
  let ?out = "sent (fst (handle_client env s rx))"
  show "?out = [] \<or> length ?out = 2 \<and> has_mandatory_headers ?out \<and>
          (response_status ?out \<noteq> ''HTTP/1.1 200 OK'' \<longrightarrow> error_page_form ?out)"
  proof (rule handle_client_cases [OF b, of env rx], goal_cases)
    case 1
    then show ?case by (simp add: close_def s)
  next
    case (2 code reason hs)
    then have "CR \<notin> set reason" "\<forall>h \<in> set hs. CR \<notin> set h" by auto
    with d have "has_mandatory_headers (error_page (http_date env) code reason hs)"
      "error_page_form (error_page (http_date env) code reason hs)"
      "length (error_page (http_date env) code reason hs) = 2"
      by (simp_all add: error_page_mandatory error_page_has_form error_page_response)
    with 2 show ?case by (simp add: close_def s)
  next
    case (3 filepath content)
    have "CR \<notin> set (mt_content_type (guess_type env filepath))"
      using g by (intro mt_content_type_no_CR) simp
    with d have "has_mandatory_headers
        (ok_page (http_date env) (mt_content_type (guess_type env filepath)) content)"
      "length (ok_page (http_date env) (mt_content_type (guess_type env filepath)) content) = 2"
      "response_status (ok_page (http_date env) (mt_content_type (guess_type env filepath)) content)
         = ''HTTP/1.1 200 OK''"
      by (simp_all add: ok_page_mandatory ok_page_response)
    with 3 show ?case by (simp add: close_def s)
  qed
  let ?out = "sent (fst (serve_connection env s rx))"
  show "?out = [] \<or> length ?out = 2 \<and> has_mandatory_headers ?out \<and>
          (response_status ?out \<noteq> ''HTTP/1.1 200 OK'' \<longrightarrow>
             response_status ?out = ''HTTP/1.1 404 Not Found'' \<and>
             response_header ''Content-Type'' ?out = Some ''text/html; charset=utf-8'' \<and>
             response_body ?out
               = ''<html><body><h1>404 Not Found</h1><p>The requested file was not found on the server.</p></body></html>'')"
  proof (rule serve_connection_cases [OF b, of env rx], goal_cases)
    case 1
    then show ?case by (simp add: close_def s)
  next
    case 2
    then show ?case
      by (simp add: close_def s not_found_page_mandatory not_found_page_response error_body_def)
  next
    case (3 e)
    then show ?case by (simp add: close_def s)
  next
    case (4 filepath file_content sent_type)
    have "CR \<notin> set (st_content_type (guess_type env filepath))"
      using g by (intro st_content_type_no_CR) simp
    then have "CR \<notin> set sent_type"
      using 4(2) by (rule encode_no_CR)
    then have "has_mandatory_headers (st_ok_page sent_type file_content)"
      "length (st_ok_page sent_type file_content) = 2"
      "response_status (st_ok_page sent_type file_content) = ''HTTP/1.1 200 OK''"
      by (simp_all add: st_ok_page_mandatory st_ok_page_response)
    with 4 show ?case by (simp add: close_def s)
  qed
qed

text \<open>The theorem at a request for a file that does not exist.\<close>

theorem mandatory_headers_and_error_pages_witness:
  "sent fresh = [] \<and> 2 \<le> budget fresh \<and> CR \<notin> set (http_date example_env) \<and>
   response_status (sent (fst (handle_client example_env fresh (get_request ''/nothing.html''))))
     \<noteq> ''HTTP/1.1 200 OK'' \<and>
   has_mandatory_headers (sent (fst (handle_client example_env fresh (get_request ''/nothing.html'')))) \<and>
   error_page_form (sent (fst (handle_client example_env fresh (get_request ''/nothing.html'')))) \<and>
   response_status (sent (fst (serve_connection example_env fresh (get_request ''/nothing.html''))))
     \<noteq> ''HTTP/1.1 200 OK'' \<and>
   has_mandatory_headers (sent (fst (serve_connection example_env fresh (get_request ''/nothing.html'')))) \<and>
   response_body (sent (fst (serve_connection example_env fresh (get_request ''/nothing.html''))))
     = ''<html><body><h1>404 Not Found</h1><p>The requested file was not found on the server.</p></body></html>''"
proof -
  let ?m = "sent (fst (handle_client example_env fresh (get_request ''/nothing.html'')))"
  let ?t = "sent (fst (serve_connection example_env fresh (get_request ''/nothing.html'')))"
  have m: "?m \<noteq> []" "response_status ?m \<noteq> ''HTTP/1.1 200 OK''"
    by code_simp+
  have t: "?t \<noteq> []" "response_status ?t \<noteq> ''HTTP/1.1 200 OK''"
    by code_simp+
  note a = mandatory_headers_and_error_pages
    [OF fresh_ready example_date_no_CR example_types_no_CR, of "get_request ''/nothing.html''"]
  from a m have 1: "has_mandatory_headers ?m \<and> error_page_form ?m"
    by blast
  from a t have 2: "has_mandatory_headers ?t \<and> response_body ?t
     = ''<html><body><h1>404 Not Found</h1><p>The requested file was not found on the server.</p></body></html>''"
    by blast
  show ?thesis
    using 1 2 m t fresh_ready example_date_no_CR by blast
qed

text \<open>
  C8 as stated fails: the single-threaded server's 404 body is not the page built from
  the code and the reason alone.
\<close>

theorem error_body_form_counterexample:
  "response_status (sent (fst (serve_connection example_env fresh (get_request ''/nothing.html''))))
     = ''HTTP/1.1 404 Not Found'' \<and>
   response_body (sent (fst (serve_connection example_env fresh (get_request ''/nothing.html''))))
     \<noteq> ''<html><body><h1>404 Not Found</h1></body></html>''"
  by code_simp

section \<open>The request line\<close>

text \<open>
  C2 as amended. When the bytes received decode to a non-empty request: in the
  multithreaded server, a first line (the text before the first CR LF) that does not
  split into exactly three whitespace-separated tokens is answered with status 400, on
  a connection that takes both writes; the single-threaded server handles a first line
  (the text before the first line boundary) of any other token count exactly as it
  handles the request \<open>GET / HTTP/1.1\<close>.
\<close>

theorem malformed_request_line:
  assumes s: "sent s = []" and b: "2 \<le> budget s" and ne: "decode_ignore received \<noteq> []"
  shows "(length (request_parts received) \<noteq> 3 \<longrightarrow>
            length (sent (fst (handle_client env s (Inr received)))) = 2 \<and>
            response_status (sent (fst (handle_client env s (Inr received))))
              = ''HTTP/1.1 400 Bad Request'') \<and>
         (length (split_ws [] (request_first_line received)) \<noteq> 3 \<longrightarrow>
            serve_connection env s (Inr received) = serve_connection env s (Inr ''GET / HTTP/1.1''))"
proof (intro conjI impI)
  assume a: "length (request_parts received) \<noteq> 3"
  have "handle_request env s (Inr received)
          = send_error (http_date env) s 400 ''Bad Request'' [] None"
    using ne a by (rule hr_bad)
  then have out: "sent (fst (handle_client env s (Inr received)))
          = error_page (http_date env) 400 ''Bad Request'' []"
    using b by (simp add: handle_client_def send_error_sent close_def s)
  show "length (sent (fst (handle_client env s (Inr received)))) = 2"
    unfolding out by (simp add: error_page_def)
  show "response_status (sent (fst (handle_client env s (Inr received))))
          = ''HTTP/1.1 400 Bad Request''"
    unfolding out by (simp add: error_page_status str_nat_codes)
next
  assume a: "length (split_ws [] (request_first_line received)) \<noteq> 3"
  then have "parse_request_line (request_first_line received)
               = parse_request_line (request_first_line ''GET / HTTP/1.1'')"
    by (simp add: parse_default plain_get_root)
  with ne plain_get_root(1)
  have "serve_request env s (Inr received) = serve_request env s (Inr ''GET / HTTP/1.1'')"
    by (rule sr_same)
  then show "serve_connection env s (Inr received) = serve_connection env s (Inr ''GET / HTTP/1.1'')"
    by (simp add: serve_connection_def)
qed

text \<open>The theorem at a request line of two tokens.\<close>

theorem malformed_request_line_witness:
  "sent fresh = [] \<and> 2 \<le> budget fresh \<and>
   decode_ignore (request_of_line ''GET /notes.txt'') \<noteq> [] \<and>
   length (request_parts (request_of_line ''GET /notes.txt'')) \<noteq> 3 \<and>
   length (split_ws [] (request_first_line (request_of_line ''GET /notes.txt''))) \<noteq> 3 \<and>
   response_status (sent (fst (handle_client example_env fresh (Inr (request_of_line ''GET /notes.txt'')))))
     = ''HTTP/1.1 400 Bad Request'' \<and>
   serve_connection example_env fresh (Inr (request_of_line ''GET /notes.txt''))
     = serve_connection example_env fresh (Inr ''GET / HTTP/1.1'')"
proof -
  have h1: "decode_ignore (request_of_line ''GET /notes.txt'') \<noteq> []"
    by code_simp
  have h2: "length (request_parts (request_of_line ''GET /notes.txt'')) \<noteq> 3"
    by code_simp
  have h3: "length (split_ws [] (request_first_line (request_of_line ''GET /notes.txt''))) \<noteq> 3"
    by code_simp
  note t = malformed_request_line [OF fresh_ready h1, of example_env]
  have 1: "response_status (sent (fst (handle_client example_env fresh (Inr (request_of_line ''GET /notes.txt'')))))
     = ''HTTP/1.1 400 Bad Request''"
    using t h2 by blast
  have 2: "serve_connection example_env fresh (Inr (request_of_line ''GET /notes.txt''))
     = serve_connection example_env fresh (Inr ''GET / HTTP/1.1'')"
    using t h3 by blast
  show ?thesis
    using 1 2 h1 h2 h3 fresh_ready by blast
qed

text \<open>
  C2 as stated fails: the single-threaded server answers a request line of two tokens
  with the default page and status 200.
\<close>

theorem two_tokens_served_counterexample:
  "length (split_ws [] (request_first_line (request_of_line ''GET /notes.txt''))) = 2 \<and>
   response_status
     (sent (fst (serve_connection example_env fresh (Inr (request_of_line ''GET /notes.txt'')))))
     = ''HTTP/1.1 200 OK'' \<and>
   response_body
     (sent (fst (serve_connection example_env fresh (Inr (request_of_line ''GET /notes.txt'')))))
     = ''<h1>It works</h1>''"
  by code_simp

text \<open>
  C3 as amended. A request line of three tokens whose method is not \<open>GET\<close> is
  answered, on a connection that takes both writes, by the multithreaded server with
  status 405 and the header \<open>Allow: GET\<close> (the clock giving a date without CR), and
  by the single-threaded server with its 404 response, which has no Allow header.
\<close>

theorem method_other_than_get:
  assumes s: "sent s = []" and b: "2 \<le> budget s" and d: "CR \<notin> set (http_date env)"
  shows "(request_parts received = [method, path, version] \<and> method \<noteq> ''GET'' \<longrightarrow>
            length (sent (fst (handle_client env s (Inr received)))) = 2 \<and>
            response_status (sent (fst (handle_client env s (Inr received))))
              = ''HTTP/1.1 405 Method Not Allowed'' \<and>
            response_header ''Allow'' (sent (fst (handle_client env s (Inr received)))) = Some ''GET'') \<and>
         (split_ws [] (request_first_line received) = [method, path, version] \<and> method \<noteq> ''GET'' \<longrightarrow>
            length (sent (fst (serve_connection env s (Inr received)))) = 2 \<and>
            response_status (sent (fst (serve_connection env s (Inr received))))
              = ''HTTP/1.1 404 Not Found'' \<and>
            response_header ''Allow'' (sent (fst (serve_connection env s (Inr received)))) = None)"
proof (intro conjI impI)
  assume a: "request_parts received = [method, path, version] \<and> method \<noteq> ''GET''"
  then have ne: "decode_ignore received \<noteq> []" by (blast dest: parts_nonempty)
  have "handle_request env s (Inr received)
          = send_error (http_date env) s 405 ''Method Not Allowed'' [''Allow: GET''] None"
    using a ne by (intro hr_method) simp_all
  then have out: "sent (fst (handle_client env s (Inr received)))
          = error_page (http_date env) 405 ''Method Not Allowed'' [''Allow: GET'']"
    using b by (simp add: handle_client_def send_error_sent close_def s)
  show "length (sent (fst (handle_client env s (Inr received)))) = 2"
    unfolding out by (simp add: error_page_def)
  show "response_status (sent (fst (handle_client env s (Inr received))))
          = ''HTTP/1.1 405 Method Not Allowed''"
    unfolding out by (simp add: error_page_status str_nat_codes)
  show "response_header ''Allow'' (sent (fst (handle_client env s (Inr received)))) = Some ''GET''"
    unfolding out using d by (simp add: error_page_response)
next
  assume a: "split_ws [] (request_first_line received) = [method, path, version] \<and> method \<noteq> ''GET''"
  then have ne: "decode_ignore received \<noteq> []" by (blast dest: first_line_nonempty)
  have "parse_request_line (request_first_line received) = Inl IOError"
    using a by (simp add: parse_request_line_def)
  with ne have "serve_request env s (Inr received) = (s, Some IOError)"
    by (rule sr_method)
  then have out: "sent (fst (serve_connection env s (Inr received))) = not_found_page"
    using b by (simp add: serve_connection_def send_not_found_sent close_def s)
  show "length (sent (fst (serve_connection env s (Inr received)))) = 2"
    unfolding out by (simp add: not_found_page_response)
  show "response_status (sent (fst (serve_connection env s (Inr received))))
          = ''HTTP/1.1 404 Not Found''"
    unfolding out by (simp add: not_found_page_response)
  show "response_header ''Allow'' (sent (fst (serve_connection env s (Inr received)))) = None"
    unfolding out by (simp add: not_found_page_response)
qed

text \<open>The theorem at a POST request.\<close>

theorem method_other_than_get_witness:
  "sent fresh = [] \<and> 2 \<le> budget fresh \<and> CR \<notin> set (http_date example_env) \<and>
   request_parts (request_bytes ''POST'' ''/notes.txt'') = [''POST'', ''/notes.txt'', ''HTTP/1.1''] \<and>
   split_ws [] (request_first_line (request_bytes ''POST'' ''/notes.txt''))
     = [''POST'', ''/notes.txt'', ''HTTP/1.1''] \<and>
   ''POST'' \<noteq> ''GET'' \<and>
   response_status (sent (fst (handle_client example_env fresh (Inr (request_bytes ''POST'' ''/notes.txt'')))))
     = ''HTTP/1.1 405 Method Not Allowed'' \<and>
   response_header ''Allow''
     (sent (fst (handle_client example_env fresh (Inr (request_bytes ''POST'' ''/notes.txt'')))))
     = Some ''GET'' \<and>
   response_status (sent (fst (serve_connection example_env fresh (Inr (request_bytes ''POST'' ''/notes.txt'')))))
     = ''HTTP/1.1 404 Not Found''"
proof -
  have h1: "request_parts (request_bytes ''POST'' ''/notes.txt'')
              = [''POST'', ''/notes.txt'', ''HTTP/1.1'']"
    by code_simp
  have h2: "split_ws [] (request_first_line (request_bytes ''POST'' ''/notes.txt''))
              = [''POST'', ''/notes.txt'', ''HTTP/1.1'']"
    by code_simp
  have h3: "''POST'' \<noteq> ''GET''" by simp
  note t = method_other_than_get [OF fresh_ready example_date_no_CR,
      of "request_bytes ''POST'' ''/notes.txt''" "''POST''" "''/notes.txt''" "''HTTP/1.1''"]
  have 1: "response_status (sent (fst (handle_client example_env fresh (Inr (request_bytes ''POST'' ''/notes.txt'')))))
     = ''HTTP/1.1 405 Method Not Allowed'' \<and>
   response_header ''Allow''
     (sent (fst (handle_client example_env fresh (Inr (request_bytes ''POST'' ''/notes.txt'')))))
     = Some ''GET''"
    using t h1 h3 by blast
  have 2: "response_status (sent (fst (serve_connection example_env fresh (Inr (request_bytes ''POST'' ''/notes.txt'')))))
     = ''HTTP/1.1 404 Not Found''"
    using t h2 h3 by blast
  show ?thesis
    using 1 2 h1 h2 h3 fresh_ready example_date_no_CR by blast
qed

text \<open>
  C3 as stated fails: the single-threaded server answers a POST with status 404 and
  no Allow header.
\<close>

theorem post_gets_404_counterexample:
  "response_status
     (sent (fst (serve_connection example_env fresh (Inr (request_bytes ''POST'' ''/notes.txt'')))))
     = ''HTTP/1.1 404 Not Found'' \<and>
   response_header ''Allow''
     (sent (fst (serve_connection example_env fresh (Inr (request_bytes ''POST'' ''/notes.txt'')))))
     = None"
  by code_simp

section \<open>Leading separators and the default document\<close>

text \<open>
  C7 as amended. Both servers strip every leading separator of the request path, not
  exactly one. The multithreaded server cuts the query component off at the first
  question mark, percent-decodes the rest, and strips: when the decoded path is \<open>n\<close>
  separators followed by a rest \<open>r\<close> that does not start with one, the relative path
  is \<open>r\<close>, or the default document when \<open>r\<close> is empty; this is the spec's single strip
  whenever the decoded path does not start with two separators. The target is the
  normalised join of the root and this relative path, resolved exactly when it has the
  root as a string prefix. The single-threaded server substitutes the default document
  only for the path that is exactly \<open>/\<close>; any other path of \<open>m\<close> separators followed by
  a rest \<open>q\<close> that does not start with one gives \<open>q\<close> up to its first question mark: the
  query is cut after the strip, nothing is percent-decoded, an empty result stays
  empty, and the result is opened as it is, relative to the working directory, with no
  join onto a root.
\<close>

theorem leading_separators_all_stripped:
  "(unquote (takeWhile (\<lambda>c. c \<noteq> CHR ''?'') url_path) = replicate n CHR ''/'' @ r \<and>
    \<not> prefix ''/'' r \<longrightarrow>
      request_raw url_path = (if r = [] then ''webservertesting.html'' else r)) \<and>
   (\<not> prefix ''//'' (unquote (takeWhile (\<lambda>c. c \<noteq> CHR ''?'') url_path)) \<longrightarrow>
      request_raw url_path = request_raw_spec url_path) \<and>
   safe_path root url_path =
     (if prefix root (normpath (path_join root (request_raw url_path)))
      then Some (normpath (path_join root (request_raw url_path))) else None) \<and>
   request_filepath ''/'' = ''webservertesting.html'' \<and>
   (path \<noteq> ''/'' \<and> path = replicate m CHR ''/'' @ q \<and> \<not> prefix ''/'' q \<longrightarrow>
      request_filepath path = takeWhile (\<lambda>c. c \<noteq> CHR ''?'') q)"
proof (intro conjI impI)
  show "request_raw url_path = (if r = [] then ''webservertesting.html'' else r)"
    if "unquote (takeWhile (\<lambda>c. c \<noteq> CHR ''?'') url_path) = replicate n CHR ''/'' @ r \<and>
        \<not> prefix ''/'' r"
    using that raw_of_decoded by blast
  show "request_raw url_path = request_raw_spec url_path"
    if "\<not> prefix ''//'' (unquote (takeWhile (\<lambda>c. c \<noteq> CHR ''?'') url_path))"
    using that by (rule raw_eq_spec)
  show "safe_path root url_path =
     (if prefix root (normpath (path_join root (request_raw url_path)))
      then Some (normpath (path_join root (request_raw url_path))) else None)"
    by (rule safe_path_is_join)
  show "request_filepath ''/'' = ''webservertesting.html''"
    by (simp add: request_filepath_def)
  show "request_filepath path = takeWhile (\<lambda>c. c \<noteq> CHR ''?'') q"
    if "path \<noteq> ''/'' \<and> path = replicate m CHR ''/'' @ q \<and> \<not> prefix ''/'' q"
    using that filepath_of_path by blast
qed

text \<open>
  The theorem at a path with two leading separators, an escape and a query, and at the
  path \<open>/?v=1\<close>: the multithreaded server decodes the escape and takes the default
  document for the second, the single-threaded server keeps the escape and is left
  with the empty path for the second.
\<close>

theorem leading_separators_all_stripped_witness:
  "unquote (takeWhile (\<lambda>c. c \<noteq> CHR ''?'') ''//docs/a%20b.html?v=1'')
     = replicate (Suc (Suc 0)) CHR ''/'' @ ''docs/a b.html'' \<and>
   \<not> prefix ''/'' ''docs/a b.html'' \<and>
   request_raw ''//docs/a%20b.html?v=1'' = ''docs/a b.html'' \<and>
   unquote (takeWhile (\<lambda>c. c \<noteq> CHR ''?'') ''/?v=1'') = replicate (Suc 0) CHR ''/'' @ [] \<and>
   request_raw ''/?v=1'' = ''webservertesting.html'' \<and>
   \<not> prefix ''//'' (unquote (takeWhile (\<lambda>c. c \<noteq> CHR ''?'') ''/?v=1'')) \<and>
   request_raw ''/?v=1'' = request_raw_spec ''/?v=1'' \<and>
   safe_path ''/srv/www'' ''/?v=1'' = Some ''/srv/www/webservertesting.html'' \<and>
   ''//docs/a%20b.html?v=1'' \<noteq> ''/'' \<and>
   ''//docs/a%20b.html?v=1'' = replicate (Suc (Suc 0)) CHR ''/'' @ ''docs/a%20b.html?v=1'' \<and>
   \<not> prefix ''/'' ''docs/a%20b.html?v=1'' \<and>
   request_filepath ''//docs/a%20b.html?v=1'' = ''docs/a%20b.html'' \<and>
   ''/?v=1'' \<noteq> ''/'' \<and> ''/?v=1'' = replicate (Suc 0) CHR ''/'' @ ''?v=1'' \<and>
   request_filepath ''/?v=1'' = []"
proof -
  have u1: "unquote (takeWhile (\<lambda>c. c \<noteq> CHR ''?'') ''//docs/a%20b.html?v=1'') = ''//docs/a b.html''"
    by code_simp
  have u2: "unquote (takeWhile (\<lambda>c. c \<noteq> CHR ''?'') ''/?v=1'') = ''/''"
    by code_simp
  have h1: "unquote (takeWhile (\<lambda>c. c \<noteq> CHR ''?'') ''//docs/a%20b.html?v=1'')
              = replicate (Suc (Suc 0)) CHR ''/'' @ ''docs/a b.html''"
    unfolding u1 by simp
  have h2: "\<not> prefix ''/'' ''docs/a b.html''" by simp
  have h3: "unquote (takeWhile (\<lambda>c. c \<noteq> CHR ''?'') ''/?v=1'') = replicate (Suc 0) CHR ''/'' @ []"
    unfolding u2 by simp
  have h4: "\<not> prefix ''//'' (unquote (takeWhile (\<lambda>c. c \<noteq> CHR ''?'') ''/?v=1''))"
    unfolding u2 by simp
  have h5: "''//docs/a%20b.html?v=1'' \<noteq> ''/''" by simp
  have h6: "''//docs/a%20b.html?v=1'' = replicate (Suc (Suc 0)) CHR ''/'' @ ''docs/a%20b.html?v=1''"
    by simp
  have h7: "\<not> prefix ''/'' ''docs/a%20b.html?v=1''" by simp
  have h8: "''/?v=1'' \<noteq> ''/''" by simp
  have h9: "''/?v=1'' = replicate (Suc 0) CHR ''/'' @ ''?v=1''" by simp
  have h10: "\<not> prefix ''/'' ''?v=1''" by simp
  have h11: "\<not> prefix ''/'' ([] :: string)" by simp
  have e1: "takeWhile (\<lambda>c. c \<noteq> CHR ''?'') ''docs/a%20b.html?v=1'' = ''docs/a%20b.html''"
    by simp
  have e2: "takeWhile (\<lambda>c. c \<noteq> CHR ''?'') ''?v=1'' = []"
    by simp
  have e4: "normpath (path_join ''/srv/www'' ''webservertesting.html'')
               = ''/srv/www/webservertesting.html''"
    by code_simp
  note t1 = leading_separators_all_stripped
    [of "''//docs/a%20b.html?v=1''" "Suc (Suc 0)" "''docs/a b.html''" "''/srv/www''"
        "''//docs/a%20b.html?v=1''" "Suc (Suc 0)" "''docs/a%20b.html?v=1''"]
  note t2 = leading_separators_all_stripped
    [of "''/?v=1''" "Suc 0" "[]" "''/srv/www''" "''/?v=1''" "Suc 0" "''?v=1''"]
  have c1: "request_raw ''//docs/a%20b.html?v=1'' = ''docs/a b.html''"
    using t1 [THEN conjunct1, THEN mp, OF conjI [OF h1 h2]] by simp
  have c2: "request_raw ''/?v=1'' = ''webservertesting.html''"
    using t2 [THEN conjunct1, THEN mp, OF conjI [OF h3 h11]] by simp
  have c3: "request_raw ''/?v=1'' = request_raw_spec ''/?v=1''"
    by (rule t2 [THEN conjunct2, THEN conjunct1, THEN mp, OF h4])
  have c4: "safe_path ''/srv/www'' ''/?v=1'' = Some ''/srv/www/webservertesting.html''"
    using t2 [THEN conjunct2, THEN conjunct2, THEN conjunct1] unfolding c2 e4 by simp
  have c5: "request_filepath ''//docs/a%20b.html?v=1'' = ''docs/a%20b.html''"
    using t1 [THEN conjunct2, THEN conjunct2, THEN conjunct2, THEN conjunct2, THEN mp,
        OF conjI [OF h5 conjI [OF h6 h7]]]
    unfolding e1 .
  have c6: "request_filepath ''/?v=1'' = []"
    using t2 [THEN conjunct2, THEN conjunct2, THEN conjunct2, THEN conjunct2, THEN mp,
        OF conjI [OF h8 conjI [OF h9 h10]]]
    unfolding e2 .
  show ?thesis
    by (intro conjI h1 h2 c1 h3 c2 h4 c3 c4 h5 h6 h7 c5 h8 h9 c6)
qed

text \<open>
  C7 as stated fails: of two leading separators the code strips both, the spec's
  single strip leaves one.
\<close>

theorem strip_one_separator_counterexample:
  "request_raw ''//a.html'' = ''a.html'' \<and> request_raw_spec ''//a.html'' = ''/a.html'' \<and>
   request_raw ''//a.html'' \<noteq> request_raw_spec ''//a.html''"
  by code_simp

section \<open>Serving a file\<close>

text \<open>
  C4 as amended. For every file that exists and is read successfully, of size S, a GET
  that resolves to it on a connection taking both writes is answered with status 200.
  The content type is the MIME table's entry for the file, with \<open>; charset=utf-8\<close>
  appended for \<open>text/\<close> types, and \<open>application/octet-stream\<close> when the table has
  no entry (in the multithreaded server also when the entry is empty); the
  single-threaded server sends it as its header encoding to ISO-8859-1 gives it, which
  is the type itself when that is ASCII. In the multithreaded server, and in the
  single-threaded server for types outside \<open>text/\<close>, the body is the file's bytes and
  Content-Length is S. For \<open>text/\<close> types the single-threaded server reads the file
  in text mode: for a file that is well-formed UTF-8 the body is the file's bytes with
  every CR LF and every other CR replaced by LF, and Content-Length is the length of
  that body. The body is the file's bytes exactly when the file holds no CR, and its
  length is S less the number of CR LF pairs in the file. The clock and the table give
  header text without CR.
\<close>

theorem served_file_round_trip:
  assumes s: "sent s = []" and b: "2 \<le> budget s" and d: "CR \<notin> set (http_date env)"
    and r: "read_file env filepath = Inr content"
    and mt: "mt_type =
               (case guess_type env filepath of
                  None \<Rightarrow> ''application/octet-stream''
                | Some t \<Rightarrow> if t = [] then ''application/octet-stream''
                            else if prefix ''text/'' t then t @ ''; charset=utf-8'' else t)"
    and st: "st_type =
               (case guess_type env filepath of
                  None \<Rightarrow> ''application/octet-stream''
                | Some t \<Rightarrow> if prefix ''text/'' t then t @ ''; charset=utf-8'' else t)"
    and n: "CR \<notin> set mt_type" "CR \<notin> set st_type"
  shows "(request_parts received = [''GET'', path, version] \<and>
          safe_path (web_root env) path = Some filepath \<and> isfile env filepath \<longrightarrow>
            serves (sent (fst (handle_client env s (Inr received)))) mt_type content) \<and>
         (split_ws [] (request_first_line received) = [''GET'', path, version] \<and>
          request_filepath path = filepath \<and> encode_latin1 st_type = Inr sent_type \<and>
          \<not> prefix ''text/'' st_type \<longrightarrow>
            serves (sent (fst (serve_connection env s (Inr received)))) sent_type content) \<and>
         (split_ws [] (request_first_line received) = [''GET'', path, version] \<and>
          request_filepath path = filepath \<and> encode_latin1 st_type = Inr sent_type \<and>
          prefix ''text/'' st_type \<and> decode_strict content = Inr content \<longrightarrow>
            serves (sent (fst (serve_connection env s (Inr received)))) sent_type
              (universal_newlines content)) \<and>
         (list_all (\<lambda>c. byte c < 0x80) st_type \<longrightarrow> encode_latin1 st_type = Inr st_type) \<and>
         length (universal_newlines content) + count_crlf content = length content \<and>
         (universal_newlines content = content \<longleftrightarrow> CR \<notin> set content)"
proof (intro conjI impI)
  have m: "mt_content_type (guess_type env filepath) = mt_type"
    unfolding mt by (rule mt_content_type_cases)
  assume a: "request_parts received = [''GET'', path, version] \<and>
          safe_path (web_root env) path = Some filepath \<and> isfile env filepath"
  then have p: "request_parts received = [''GET'', path, version]"
    and f: "safe_path (web_root env) path = Some filepath" and i: "isfile env filepath"
    by simp_all
  have "sent (fst (handle_client env s (Inr received))) = ok_page (http_date env) mt_type content"
    using handle_client_serves [OF s b p f i r] unfolding m .
  then show "serves (sent (fst (handle_client env s (Inr received)))) mt_type content"
    using d n(1) by (simp add: ok_page_serves)
next
  have c: "st_content_type (guess_type env filepath) = st_type"
    unfolding st by (rule st_content_type_cases)
  assume a: "split_ws [] (request_first_line received) = [''GET'', path, version] \<and>
          request_filepath path = filepath \<and> encode_latin1 st_type = Inr sent_type \<and>
          \<not> prefix ''text/'' st_type"
  then have p: "split_ws [] (request_first_line received) = [''GET'', path, version]"
    and fp: "request_filepath path = filepath" and e: "encode_latin1 st_type = Inr sent_type"
    and nt: "\<not> prefix ''text/'' st_type"
    by simp_all
  have rd: "st_read env (st_content_type (guess_type env (request_filepath path)))
          (request_filepath path) = Inr content"
    unfolding fp c using r by (simp add: st_read_as_bytes [OF nt])
  have en: "encode_latin1 (st_content_type (guess_type env (request_filepath path))) = Inr sent_type"
    unfolding fp c by (rule e)
  have "sent (fst (serve_connection env s (Inr received))) = st_ok_page sent_type content"
    using s b p rd en by (rule serve_connection_serves)
  moreover have "CR \<notin> set sent_type" using n(2) e by (rule encode_no_CR)
  ultimately show "serves (sent (fst (serve_connection env s (Inr received)))) sent_type content"
    by (simp add: st_ok_page_serves)
next
  have c: "st_content_type (guess_type env filepath) = st_type"
    unfolding st by (rule st_content_type_cases)
  assume a: "split_ws [] (request_first_line received) = [''GET'', path, version] \<and>
          request_filepath path = filepath \<and> encode_latin1 st_type = Inr sent_type \<and>
          prefix ''text/'' st_type \<and> decode_strict content = Inr content"
  then have p: "split_ws [] (request_first_line received) = [''GET'', path, version]"
    and fp: "request_filepath path = filepath" and e: "encode_latin1 st_type = Inr sent_type"
    and tx: "prefix ''text/'' st_type" and v: "decode_strict content = Inr content"
    by simp_all
  have rd: "st_read env (st_content_type (guess_type env (request_filepath path)))
          (request_filepath path) = Inr (universal_newlines content)"
    unfolding fp c using tx r v by (rule st_read_as_text)
  have en: "encode_latin1 (st_content_type (guess_type env (request_filepath path))) = Inr sent_type"
    unfolding fp c by (rule e)
  have "sent (fst (serve_connection env s (Inr received)))
          = st_ok_page sent_type (universal_newlines content)"
    using s b p rd en by (rule serve_connection_serves)
  moreover have "CR \<notin> set sent_type" using n(2) e by (rule encode_no_CR)
  ultimately show "serves (sent (fst (serve_connection env s (Inr received)))) sent_type
              (universal_newlines content)"
    by (simp add: st_ok_page_serves)
next
  assume "list_all (\<lambda>c. byte c < 0x80) st_type"
  then show "encode_latin1 st_type = Inr st_type" by (rule encode_ascii)
next
  show "length (universal_newlines content) + count_crlf content = length content"
    by (rule universal_newlines_length)
  show "universal_newlines content = content \<longleftrightarrow> CR \<notin> set content"
    by (rule universal_newlines_fixed)
qed

text \<open>
  The theorem at a text file and at a file without an entry in the table in the
  multithreaded server, and at an image, a file without an entry and a text file in
  the single-threaded server.
\<close>

theorem served_file_round_trip_witness:
  "sent fresh = [] \<and> 2 \<le> budget fresh \<and> CR \<notin> set (http_date example_env) \<and>
   read_file example_env ''/srv/www/notes.txt'' = Inr (''a'' @ CRLF @ ''b'') \<and>
   request_parts (request_bytes ''GET'' ''/notes.txt'') = [''GET'', ''/notes.txt'', ''HTTP/1.1''] \<and>
   safe_path (web_root example_env) ''/notes.txt'' = Some ''/srv/www/notes.txt'' \<and>
   isfile example_env ''/srv/www/notes.txt'' \<and>
   serves (sent (fst (handle_client example_env fresh (Inr (request_bytes ''GET'' ''/notes.txt''))))) ''text/plain; charset=utf-8'' (''a'' @ CRLF @ ''b'') \<and>
   read_file example_env ''/srv/www/archive.bin'' = Inr [CHR 0x1F, CHR 0x8B, CR, LF, CHR 0xFF] \<and>
   request_parts (request_bytes ''GET'' ''/archive.bin'') = [''GET'', ''/archive.bin'', ''HTTP/1.1''] \<and>
   safe_path (web_root example_env) ''/archive.bin'' = Some ''/srv/www/archive.bin'' \<and>
   isfile example_env ''/srv/www/archive.bin'' \<and>
   serves (sent (fst (handle_client example_env fresh (Inr (request_bytes ''GET'' ''/archive.bin''))))) ''application/octet-stream'' [CHR 0x1F, CHR 0x8B, CR, LF, CHR 0xFF] \<and>
   read_file example_env ''logo.png'' = Inr [CHR 0x89, CHR ''P'', CHR ''N'', CHR ''G'', CR, LF] \<and>
   split_ws [] (request_first_line (request_bytes ''GET'' ''/logo.png'')) = [''GET'', ''/logo.png'', ''HTTP/1.1''] \<and>
   request_filepath ''/logo.png'' = ''logo.png'' \<and>
   encode_latin1 ''image/png'' = Inr ''image/png'' \<and>
   \<not> prefix ''text/'' ''image/png'' \<and>
   serves (sent (fst (serve_connection example_env fresh (Inr (request_bytes ''GET'' ''/logo.png''))))) ''image/png'' [CHR 0x89, CHR ''P'', CHR ''N'', CHR ''G'', CR, LF] \<and>
   read_file example_env ''archive.bin'' = Inr [CHR 0x1F, CHR 0x8B, CR, LF, CHR 0xFF] \<and>
   split_ws [] (request_first_line (request_bytes ''GET'' ''/archive.bin'')) = [''GET'', ''/archive.bin'', ''HTTP/1.1''] \<and>
   request_filepath ''/archive.bin'' = ''archive.bin'' \<and>
   encode_latin1 ''application/octet-stream'' = Inr ''application/octet-stream'' \<and>
   \<not> prefix ''text/'' ''application/octet-stream'' \<and>
   serves (sent (fst (serve_connection example_env fresh (Inr (request_bytes ''GET'' ''/archive.bin''))))) ''application/octet-stream'' [CHR 0x1F, CHR 0x8B, CR, LF, CHR 0xFF] \<and>
   read_file example_env ''notes.txt'' = Inr (''a'' @ CRLF @ ''b'') \<and>
   split_ws [] (request_first_line (request_bytes ''GET'' ''/notes.txt'')) = [''GET'', ''/notes.txt'', ''HTTP/1.1''] \<and>
   request_filepath ''/notes.txt'' = ''notes.txt'' \<and>
   encode_latin1 ''text/plain; charset=utf-8'' = Inr ''text/plain; charset=utf-8'' \<and>
   prefix ''text/'' ''text/plain; charset=utf-8'' \<and>
   decode_strict (''a'' @ CRLF @ ''b'') = Inr (''a'' @ CRLF @ ''b'') \<and>
   serves (sent (fst (serve_connection example_env fresh (Inr (request_bytes ''GET'' ''/notes.txt''))))) ''text/plain; charset=utf-8''
     (universal_newlines (''a'' @ CRLF @ ''b'')) \<and>
   universal_newlines (''a'' @ CRLF @ ''b'') = [CHR ''a'', LF, CHR ''b''] \<and>
   length (universal_newlines (''a'' @ CRLF @ ''b'')) + count_crlf (''a'' @ CRLF @ ''b'') = length (''a'' @ CRLF @ ''b'') \<and>
   count_crlf (''a'' @ CRLF @ ''b'') = 1"
proof -
  have r1: "read_file example_env ''/srv/www/notes.txt'' = Inr (''a'' @ CRLF @ ''b'')"
    by code_simp
  have m1: "''text/plain; charset=utf-8'' =
     (case guess_type example_env ''/srv/www/notes.txt'' of
        None \<Rightarrow> ''application/octet-stream''
      | Some t \<Rightarrow> if t = [] then ''application/octet-stream''
                  else if prefix ''text/'' t then t @ ''; charset=utf-8'' else t)"
    by code_simp
  have t1: "''text/plain; charset=utf-8'' =
     (case guess_type example_env ''/srv/www/notes.txt'' of
        None \<Rightarrow> ''application/octet-stream''
      | Some t \<Rightarrow> if prefix ''text/'' t then t @ ''; charset=utf-8'' else t)"
    by code_simp
  have n1: "CR \<notin> set ''text/plain; charset=utf-8''" "CR \<notin> set ''text/plain; charset=utf-8''"
    by simp_all
  have p1: "request_parts (request_bytes ''GET'' ''/notes.txt'') = [''GET'', ''/notes.txt'', ''HTTP/1.1'']"
    by code_simp
  have f1: "safe_path (web_root example_env) ''/notes.txt'' = Some ''/srv/www/notes.txt''"
    by code_simp
  have i1: "isfile example_env ''/srv/www/notes.txt''"
    by code_simp
  have c1: "serves (sent (fst (handle_client example_env fresh (Inr (request_bytes ''GET'' ''/notes.txt''))))) ''text/plain; charset=utf-8'' (''a'' @ CRLF @ ''b'')"
    using served_file_round_trip [OF fresh_ready example_date_no_CR r1 m1 t1 n1,
        THEN conjunct1, THEN mp, OF conjI [OF p1 conjI [OF f1 i1]]] .
  have r2: "read_file example_env ''/srv/www/archive.bin'' = Inr [CHR 0x1F, CHR 0x8B, CR, LF, CHR 0xFF]"
    by code_simp
  have m2: "''application/octet-stream'' =
     (case guess_type example_env ''/srv/www/archive.bin'' of
        None \<Rightarrow> ''application/octet-stream''
      | Some t \<Rightarrow> if t = [] then ''application/octet-stream''
                  else if prefix ''text/'' t then t @ ''; charset=utf-8'' else t)"
    by code_simp
  have t2: "''application/octet-stream'' =
     (case guess_type example_env ''/srv/www/archive.bin'' of
        None \<Rightarrow> ''application/octet-stream''
      | Some t \<Rightarrow> if prefix ''text/'' t then t @ ''; charset=utf-8'' else t)"
    by code_simp
  have n2: "CR \<notin> set ''application/octet-stream''" "CR \<notin> set ''application/octet-stream''"
    by simp_all
  have p2: "request_parts (request_bytes ''GET'' ''/archive.bin'') = [''GET'', ''/archive.bin'', ''HTTP/1.1'']"
    by code_simp
  have f2: "safe_path (web_root example_env) ''/archive.bin'' = Some ''/srv/www/archive.bin''"
    by code_simp
  have i2: "isfile example_env ''/srv/www/archive.bin''"
    by code_simp
  have c2: "serves (sent (fst (handle_client example_env fresh (Inr (request_bytes ''GET'' ''/archive.bin''))))) ''application/octet-stream'' [CHR 0x1F, CHR 0x8B, CR, LF, CHR 0xFF]"
    using served_file_round_trip [OF fresh_ready example_date_no_CR r2 m2 t2 n2,
        THEN conjunct1, THEN mp, OF conjI [OF p2 conjI [OF f2 i2]]] .
  have r3: "read_file example_env ''logo.png'' = Inr [CHR 0x89, CHR ''P'', CHR ''N'', CHR ''G'', CR, LF]"
    by code_simp
  have m3: "''image/png'' =
     (case guess_type example_env ''logo.png'' of
        None \<Rightarrow> ''application/octet-stream''
      | Some t \<Rightarrow> if t = [] then ''application/octet-stream''
                  else if prefix ''text/'' t then t @ ''; charset=utf-8'' else t)"
    by code_simp
  have t3: "''image/png'' =
     (case guess_type example_env ''logo.png'' of
        None \<Rightarrow> ''application/octet-stream''
      | Some t \<Rightarrow> if prefix ''text/'' t then t @ ''; charset=utf-8'' else t)"
    by code_simp
  have n3: "CR \<notin> set ''image/png''" "CR \<notin> set ''image/png''"
    by simp_all
  have p3: "split_ws [] (request_first_line (request_bytes ''GET'' ''/logo.png'')) = [''GET'', ''/logo.png'', ''HTTP/1.1'']"
    by code_simp
  have f3: "request_filepath ''/logo.png'' = ''logo.png''"
    by code_simp
  have a3: "list_all (\<lambda>c. byte c < 0x80) ''image/png''"
    by code_simp
  have e3: "encode_latin1 ''image/png'' = Inr ''image/png''"
    using served_file_round_trip [OF fresh_ready example_date_no_CR r3 m3 t3 n3,
        THEN conjunct2, THEN conjunct2, THEN conjunct2, THEN conjunct1, THEN mp, OF a3] .
  have x3: "\<not> prefix ''text/'' ''image/png''"
    by simp
  have c3: "serves (sent (fst (serve_connection example_env fresh (Inr (request_bytes ''GET'' ''/logo.png''))))) ''image/png'' [CHR 0x89, CHR ''P'', CHR ''N'', CHR ''G'', CR, LF]"
    using served_file_round_trip [OF fresh_ready example_date_no_CR r3 m3 t3 n3,
        THEN conjunct2, THEN conjunct1, THEN mp,
        OF conjI [OF p3 conjI [OF f3 conjI [OF e3 x3]]]] .
  have r4: "read_file example_env ''archive.bin'' = Inr [CHR 0x1F, CHR 0x8B, CR, LF, CHR 0xFF]"
    by code_simp
  have m4: "''application/octet-stream'' =
     (case guess_type example_env ''archive.bin'' of
        None \<Rightarrow> ''application/octet-stream''
      | Some t \<Rightarrow> if t = [] then ''application/octet-stream''
                  else if prefix ''text/'' t then t @ ''; charset=utf-8'' else t)"
    by code_simp
  have t4: "''application/octet-stream'' =
     (case guess_type example_env ''archive.bin'' of
        None \<Rightarrow> ''application/octet-stream''
      | Some t \<Rightarrow> if prefix ''text/'' t then t @ ''; charset=utf-8'' else t)"
    by code_simp
  have n4: "CR \<notin> set ''application/octet-stream''" "CR \<notin> set ''application/octet-stream''"
    by simp_all
  have p4: "split_ws [] (request_first_line (request_bytes ''GET'' ''/archive.bin'')) = [''GET'', ''/archive.bin'', ''HTTP/1.1'']"
    by code_simp
  have f4: "request_filepath ''/archive.bin'' = ''archive.bin''"
    by code_simp
  have a4: "list_all (\<lambda>c. byte c < 0x80) ''application/octet-stream''"
    by code_simp
  have e4: "encode_latin1 ''application/octet-stream'' = Inr ''application/octet-stream''"
    using served_file_round_trip [OF fresh_ready example_date_no_CR r4 m4 t4 n4,
        THEN conjunct2, THEN conjunct2, THEN conjunct2, THEN conjunct1, THEN mp, OF a4] .
  have x4: "\<not> prefix ''text/'' ''application/octet-stream''"
    by simp
  have c4: "serves (sent (fst (serve_connection example_env fresh (Inr (request_bytes ''GET'' ''/archive.bin''))))) ''application/octet-stream'' [CHR 0x1F, CHR 0x8B, CR, LF, CHR 0xFF]"
    using served_file_round_trip [OF fresh_ready example_date_no_CR r4 m4 t4 n4,
        THEN conjunct2, THEN conjunct1, THEN mp,
        OF conjI [OF p4 conjI [OF f4 conjI [OF e4 x4]]]] .
  have r5: "read_file example_env ''notes.txt'' = Inr (''a'' @ CRLF @ ''b'')"
    by code_simp
  have m5: "''text/plain; charset=utf-8'' =
     (case guess_type example_env ''notes.txt'' of
        None \<Rightarrow> ''application/octet-stream''
      | Some t \<Rightarrow> if t = [] then ''application/octet-stream''
                  else if prefix ''text/'' t then t @ ''; charset=utf-8'' else t)"
    by code_simp
  have t5: "''text/plain; charset=utf-8'' =
     (case guess_type example_env ''notes.txt'' of
        None \<Rightarrow> ''application/octet-stream''
      | Some t \<Rightarrow> if prefix ''text/'' t then t @ ''; charset=utf-8'' else t)"
    by code_simp
  have n5: "CR \<notin> set ''text/plain; charset=utf-8''" "CR \<notin> set ''text/plain; charset=utf-8''"
    by simp_all
  have p5: "split_ws [] (request_first_line (request_bytes ''GET'' ''/notes.txt'')) = [''GET'', ''/notes.txt'', ''HTTP/1.1'']"
    by code_simp
  have f5: "request_filepath ''/notes.txt'' = ''notes.txt''"
    by code_simp
  have a5: "list_all (\<lambda>c. byte c < 0x80) ''text/plain; charset=utf-8''"
    by code_simp
  have e5: "encode_latin1 ''text/plain; charset=utf-8'' = Inr ''text/plain; charset=utf-8''"
    using served_file_round_trip [OF fresh_ready example_date_no_CR r5 m5 t5 n5,
        THEN conjunct2, THEN conjunct2, THEN conjunct2, THEN conjunct1, THEN mp, OF a5] .
  have x5: "prefix ''text/'' ''text/plain; charset=utf-8''"
    by simp
  have v5: "decode_strict (''a'' @ CRLF @ ''b'') = Inr (''a'' @ CRLF @ ''b'')"
    by code_simp
  have c5: "serves (sent (fst (serve_connection example_env fresh (Inr (request_bytes ''GET'' ''/notes.txt''))))) ''text/plain; charset=utf-8''
      (universal_newlines (''a'' @ CRLF @ ''b''))"
    using served_file_round_trip [OF fresh_ready example_date_no_CR r5 m5 t5 n5,
        THEN conjunct2, THEN conjunct2, THEN conjunct1, THEN mp,
        OF conjI [OF p5 conjI [OF f5 conjI [OF e5 conjI [OF x5 v5]]]]] .
  have u5: "universal_newlines (''a'' @ CRLF @ ''b'') = [CHR ''a'', LF, CHR ''b'']"
    by code_simp
  have l5: "length (universal_newlines (''a'' @ CRLF @ ''b'')) + count_crlf (''a'' @ CRLF @ ''b'') = length (''a'' @ CRLF @ ''b'')"
    using served_file_round_trip [OF fresh_ready example_date_no_CR r5 m5 t5 n5]
    by blast
  have k5: "count_crlf (''a'' @ CRLF @ ''b'') = 1"
    by code_simp
  show ?thesis
    by (intro conjI fresh_ready example_date_no_CR r1 p1 f1 i1 c1 r2 p2 f2 i2 c2 r3 p3 f3 e3 x3 c3 r4 p4 f4 e4 x4 c4 r5 p5 f5 e5 x5 v5 c5 u5 l5 k5)
qed

text \<open>
  C4 as stated fails: the single-threaded server sends a text file of four bytes with
  a CR LF as three bytes, and announces three.
\<close>

theorem text_file_newlines_counterexample:
  "read_file example_env ''notes.txt'' = Inr (''a'' @ CRLF @ ''b'') \<and>
   length (''a'' @ CRLF @ ''b'') = 4 \<and>
   response_status (sent (fst (serve_connection example_env fresh (get_request ''/notes.txt''))))
     = ''HTTP/1.1 200 OK'' \<and>
   response_body (sent (fst (serve_connection example_env fresh (get_request ''/notes.txt''))))
     = [CHR ''a'', LF, CHR ''b''] \<and>
   response_header ''Content-Length''
     (sent (fst (serve_connection example_env fresh (get_request ''/notes.txt'')))) = Some ''3''"
  by code_simp

section \<open>Internal failures\<close>

text \<open>
  C5. Every unexpected internal failure during request handling is caught at the
  connection-handler boundary and converted to an HTTP 500 response; none propagates
  out of the handler to end its thread or the process. The single-threaded server does
  not keep this. Its \<open>try\<close> block is guarded by \<open>except IOError\<close> alone and it has no
  500 response: a \<open>text/\<close> file that is not well-formed UTF-8 raises
  \<open>UnicodeDecodeError\<close> when it is read in text mode, \<open>finally\<close> closes the socket
  with nothing sent, and the exception leaves the accept loop, so the server process
  ends. The multithreaded server, whose \<open>handle_client\<close> catches every exception,
  answers a failed read with the 500 page and raises nothing.
\<close>

theorem decode_error_ends_server:
  "request_filepath ''/legacy.txt'' = ''legacy.txt'' \<and>
   guess_type example_env ''legacy.txt'' = Some ''text/plain'' \<and>
   read_file example_env ''legacy.txt'' = Inr [CHR ''c'', CHR ''a'', CHR ''f'', CHR 0xE9] \<and>
   decode_strict [CHR ''c'', CHR ''a'', CHR ''f'', CHR 0xE9] = Inl UnicodeDecodeError \<and>
   serve_connection example_env fresh (get_request ''/legacy.txt'')
     = (close fresh, Some UnicodeDecodeError) \<and>
   sent (close fresh) = [] \<and>
   read_file example_env ''/srv/www/locked.html'' = Inl IOError \<and>
   snd (handle_client example_env fresh (get_request ''/locked.html'')) = None \<and>
   response_status (sent (fst (handle_client example_env fresh (get_request ''/locked.html''))))
     = ''HTTP/1.1 500 Internal Server Error''"
  by code_simp

end
